theory Spec2Isabelle
  imports Main
begin

section \<open>The remote transcoding service, as the module sees it\<close>

text \<open>
  An entry of the preset listing. The module reads the keys \<open>Name\<close>, \<open>Id\<close> and \<open>Arn\<close> of
  every entry; the service sends all three as strings.
\<close>

record preset =
  preset_Name :: string
  preset_Id :: string
  preset_Arn :: string

text \<open>
  One page of the \<open>list_presets\<close> paginator. \<open>NextPageToken\<close> is read with
  \<open>page.get('NextPageToken', None)\<close>, and the key \<open>Presets\<close> may be missing
  (\<open>'Presets' in page.keys()\<close>), so both are optional.
\<close>

record page =
  NextPageToken :: "string option"
  Presets :: "preset list option"

text \<open>
  A value read by \<open>json.load\<close>. The module never looks inside the Video, Audio and
  Thumbnails blocks: it takes their \<open>len\<close> and hands them to the service.
\<close>

datatype json =
    JNull
  | JBool bool
  | JNum int
  | JStr string
  | JArr "json list"
  | JObj "(string \<times> json) list"

text \<open>
  The keyword arguments of \<open>client.create_preset(**params)\<close>. The dictionary \<open>params\<close> only
  ever holds these six keys; an optional field is \<open>None\<close> when the key was never stored.
\<close>

record params =
  Name :: string
  Description :: "string option"
  Container :: string
  Video :: "json option"
  Audio :: "json option"
  Thumbnails :: "json option"

text \<open>The calls that reach the service, in the order they are issued.\<close>

datatype call =
    ListPresets
  | DeletePreset string
  | CreatePreset params

fun mutating :: "call \<Rightarrow> bool" where
  "mutating ListPresets = False"
| "mutating (DeletePreset i) = True"
| "mutating (CreatePreset p) = True"

fun is_delete :: "call \<Rightarrow> bool" where
  "is_delete (DeletePreset i) = True"
| "is_delete c = False"

fun is_create :: "call \<Rightarrow> bool" where
  "is_create (CreatePreset p) = True"
| "is_create c = False"

text \<open>
  The boto3 client is outside the repository. It is modelled by the pages its paginator
  yields (\<open>catalog\<close>), by how the service answers a delete of a given id
  (\<open>delete_error\<close>: the text of the \<open>ClientError\<close> when it refuses) and a create request
  (\<open>create_reply\<close>: the \<open>ClientError\<close> text, or the preset it made), by what its
  check of a create request against the service's schema finds beyond the shape of the
  blocks (\<open>param_error\<close>: the text of the \<open>ParamValidationError\<close>), and by the log of
  calls issued so far.
\<close>

record client =
  catalog :: "page list"
  delete_error :: "string \<Rightarrow> string option"
  param_error :: "params \<Rightarrow> string option"
  create_reply :: "params \<Rightarrow> string + preset"
  calls :: "call list"

definition issue :: "call \<Rightarrow> client \<Rightarrow> client" where
  "issue c client = client\<lparr>calls := calls client @ [c]\<rparr>"

text \<open>A delete the service accepts removes the entries that carry the id.\<close>

definition catalog_remove :: "string \<Rightarrow> page list \<Rightarrow> page list" where
  "catalog_remove i pgs =
     map (\<lambda>pg. pg\<lparr>Presets := map_option (filter (\<lambda>p. preset_Id p \<noteq> i)) (Presets pg)\<rparr>) pgs"

text \<open>
  A create the service accepts adds the new preset at the end of the listing, which is
  requested in ascending order.
\<close>

fun catalog_add :: "preset \<Rightarrow> page list \<Rightarrow> page list" where
  "catalog_add p [] = [\<lparr>NextPageToken = None, Presets = Some [p]\<rparr>]"
| "catalog_add p [pg] =
     [pg\<lparr>Presets := Some ((case Presets pg of None \<Rightarrow> [] | Some ps \<Rightarrow> ps) @ [p])\<rparr>]"
| "catalog_add p (pg # pgs) = pg # catalog_add p pgs"

text \<open>\<open>client.delete_preset(Id=...)\<close>: \<open>Inl\<close> is the raised \<open>ClientError\<close>.\<close>

definition client_delete_preset :: "client \<Rightarrow> string \<Rightarrow> (string + unit) \<times> client" where
  "client_delete_preset client i =
     (case delete_error client i of
        Some e \<Rightarrow> (Inl e, issue (DeletePreset i) client)
      | None \<Rightarrow>
          (Inr (), (issue (DeletePreset i) client)\<lparr>catalog := catalog_remove i (catalog client)\<rparr>))"

text \<open>
  boto3 checks a request against the schema of the service before it sends anything. The
  schema wants each of the blocks Video, Audio and Thumbnails, when given, to be an
  object; what else the schema asks of a request is left to the client.
\<close>

fun is_object :: "json option \<Rightarrow> bool" where
  "is_object None = True"
| "is_object (Some (JObj kvs)) = True"
| "is_object (Some v) = False"

definition request_error :: "client \<Rightarrow> params \<Rightarrow> string option" where
  "request_error client ps =
     (if is_object (Video ps) \<and> is_object (Audio ps) \<and> is_object (Thumbnails ps)
      then param_error client ps
      else Some ''Invalid type for parameter'')"

text \<open>
  How a call of \<open>client.create_preset\<close> fails: with \<open>ParamValidationError\<close>, raised by
  the check before the request is sent, or with \<open>ClientError\<close>, the answer of the service.
\<close>

datatype create_error = NotSent string | Refused string

text \<open>\<open>client.create_preset(**params)\<close>.\<close>

definition client_create_preset :: "client \<Rightarrow> params \<Rightarrow> (create_error + preset) \<times> client" where
  "client_create_preset client ps =
     (case request_error client ps of
        Some e \<Rightarrow> (Inl (NotSent e), client)
      | None \<Rightarrow>
          (case create_reply client ps of
             Inl e \<Rightarrow> (Inl (Refused e), issue (CreatePreset ps) client)
           | Inr p \<Rightarrow>
               (Inr p,
                (issue (CreatePreset ps) client)\<lparr>catalog := catalog_add p (catalog client)\<rparr>)))"

section \<open>The resource locator\<close>

text \<open>
  The inner loop of \<open>get_preset_id\<close>:
  \<^verbatim>\<open>for preset in page['Presets']: if preset['Name'] == preset_name: return ...\<close>
\<close>

fun preset_loop :: "preset list \<Rightarrow> string \<Rightarrow> preset option" where
  "preset_loop [] preset_name = None"
| "preset_loop (p # ps) preset_name =
     (if preset_Name p = preset_name then Some p else preset_loop ps preset_name)"

text \<open>
  The outer loop, over the pages the paginator yields. The paginator requests a page when
  the loop asks for it, so every page the loop reaches is one \<open>ListPresets\<close> call. The
  loop leaves at the first match, and after a page that carries no \<open>NextPageToken\<close>.
  (The assignment to \<open>operation_parameters['PageToken']\<close> changes a dictionary that the
  paginator has already copied: it has no effect.)
\<close>

fun page_loop :: "page list \<Rightarrow> string \<Rightarrow> client \<Rightarrow> (string option \<times> string option) \<times> client" where
  "page_loop [] preset_name client = ((None, None), client)"
| "page_loop (pg # page_iterator) preset_name client =
     (let next_token = NextPageToken pg;
          client' = issue ListPresets client
      in case (case Presets pg of None \<Rightarrow> None | Some ps \<Rightarrow> preset_loop ps preset_name) of
           Some p \<Rightarrow> ((Some (preset_Id p), Some (preset_Arn p)), client')
         | None \<Rightarrow>
             if next_token = None then ((None, None), client')
             else page_loop page_iterator preset_name client')"

definition get_preset_id :: "client \<Rightarrow> string \<Rightarrow> (string option \<times> string option) \<times> client" where
  "get_preset_id client preset_name = page_loop (catalog client) preset_name client"

subsection \<open>The locator as the specification words it\<close>

text \<open>The pages of a listing up to and including the first one without a continuation token.\<close>

fun walked :: "page list \<Rightarrow> page list" where
  "walked [] = []"
| "walked (pg # pgs) = (if NextPageToken pg = None then [pg] else pg # walked pgs)"

definition page_entries :: "page \<Rightarrow> preset list" where
  "page_entries pg = (case Presets pg of None \<Rightarrow> [] | Some ps \<Rightarrow> ps)"

text \<open>First entry, in listing order, whose name is exactly the one sought; else the sentinel.\<close>

definition first_match :: "page list \<Rightarrow> string \<Rightarrow> string option \<times> string option" where
  "first_match pgs n =
     (case find (\<lambda>p. preset_Name p = n) (concat (map page_entries (walked pgs))) of
        None \<Rightarrow> (None, None)
      | Some p \<Rightarrow> (Some (preset_Id p), Some (preset_Arn p)))"

text \<open>Pages requested: those before the page holding the first match, and that page.\<close>

definition pages_requested :: "page list \<Rightarrow> string \<Rightarrow> nat" where
  "pages_requested pgs n =
     (let w = walked pgs;
          miss = takeWhile (\<lambda>pg. find (\<lambda>p. preset_Name p = n) (page_entries pg) = None) w
      in min (Suc (length miss)) (length w))"

section \<open>The host framework and the document file\<close>

text \<open>
  What an uncaught Python exception and a call of \<open>module.fail_json\<close> leave behind.
  \<open>fail_json\<close> prints its message and exits the process, so both end the invocation;
  only \<open>fail_json\<close> reports a message of the module's own.
\<close>

datatype exn =
    KeyError string
  | ValueError string
  | TypeError string
  | NameError string
  | ParamValidationError string

datatype failure =
    FailJson string
  | Uncaught exn

text \<open>A Python value stored in the result dictionary.\<close>

datatype pyval = PNone | PStr string | PBool bool

text \<open>
  The result dictionary. It is created with the keys \<open>name\<close>, \<open>id\<close>, \<open>arn\<close> and
  \<open>msg\<close>; the key \<open>changed\<close> exists only on the paths that store it.
\<close>

record result =
  res_name :: string
  res_id :: pyval
  res_arn :: pyval
  res_msg :: string
  res_changed :: "pyval option"

datatype target = Present | Absent

text \<open>\<open>module.params\<close> after the framework has parsed the arguments, and \<open>module.check_mode\<close>.\<close>

record ansible_module =
  name :: "string option"
  description :: "string option"
  state :: target
  recreate :: bool
  container :: "string option"
  preset_document :: "string option"
  check_mode :: bool

text \<open>
  What the host's file system holds at a path: nothing that \<open>os.path.isfile\<close> accepts, a
  file whose opening or reading raises \<open>IOError\<close>, a file that \<open>json.load\<close> rejects with
  \<open>ValueError\<close>, or a file that \<open>json.load\<close> turns into a value.
\<close>

datatype host_file =
    NoFile
  | Unreadable string
  | Malformed string
  | Loaded json

text \<open>\<open>if module.params.get(k):\<close> a missing parameter and the empty string are both false.\<close>

definition truthy_str :: "string option \<Rightarrow> string option" where
  "truthy_str v = (case v of None \<Rightarrow> None | Some s \<Rightarrow> if s = [] then None else Some s)"

definition of_opt :: "string option \<Rightarrow> pyval" where
  "of_opt v = (case v of None \<Rightarrow> PNone | Some s \<Rightarrow> PStr s)"

text \<open>Python's \<open>len\<close>: defined on strings, lists and dictionaries only.\<close>

fun py_len :: "json \<Rightarrow> exn + nat" where
  "py_len (JStr s) = Inr (length s)"
| "py_len (JArr xs) = Inr (length xs)"
| "py_len (JObj kvs) = Inr (length (remdups (map fst kvs)))"
| "py_len v = Inl (TypeError ''object has no len()'')"

fun is_substring :: "string \<Rightarrow> string \<Rightarrow> bool" where
  "is_substring k [] = (k = [])"
| "is_substring k (c # s) = (take (length k) (c # s) = k \<or> is_substring k s)"

text \<open>
  \<^verbatim>\<open>if key in PresetTemplate: params[key] = PresetTemplate[key]\<close>
  The result is the value stored under \<open>key\<close> in \<open>params\<close>, if any. On a dictionary the
  last of several equal keys of the file counts. On a list or a string the test \<open>in\<close> is
  membership or containment, and the subscript that follows a positive test raises.
\<close>

fun template_block :: "json \<Rightarrow> string \<Rightarrow> exn + json option" where
  "template_block (JObj kvs) key = Inr (map_of (rev kvs) key)"
| "template_block (JArr xs) key =
     (if JStr key \<in> set xs then Inl (TypeError ''list indices must be integers'') else Inr None)"
| "template_block (JStr s) key =
     (if is_substring key s then Inl (TypeError ''string indices must be integers'') else Inr None)"
| "template_block v key = Inl (TypeError ''argument is not iterable'')"

text \<open>
  Lines 207 to 217: \<open>PresetTemplate\<close> starts as the empty dictionary; with a path, the file
  must exist and is read. Only \<open>IOError\<close> is caught.
\<close>

definition load_template :: "ansible_module \<Rightarrow> (string \<Rightarrow> host_file) \<Rightarrow> failure + json" where
  "load_template module os =
     (case truthy_str (preset_document module) of
        None \<Rightarrow> Inr (JObj [])
      | Some spec_path \<Rightarrow>
          (case os spec_path of
             NoFile \<Rightarrow> Inl (FailJson (''Wrong path for preset_document: '' @ spec_path))
           | Unreadable e \<Rightarrow> Inl (FailJson (''Can't open video_template file - '' @ e))
           | Malformed e \<Rightarrow> Inl (Uncaught (ValueError e))
           | Loaded PresetTemplate \<Rightarrow> Inr PresetTemplate))"

text \<open>\<open>len(params[key])\<close>: the subscript raises \<open>KeyError\<close> when the key was never stored.\<close>

fun block_len :: "string \<Rightarrow> json option \<Rightarrow> exn + nat" where
  "block_len key None = Inl (KeyError key)"
| "block_len key (Some v) = py_len v"

text \<open>
  Lines 228 to 230, with the left-to-right evaluation of \<open>and\<close>: a block that is not empty
  ends the test before the next block is read.
\<close>

definition no_specs :: "params \<Rightarrow> exn + bool" where
  "no_specs ps =
     (case block_len ''Video'' (Video ps) of
        Inl e \<Rightarrow> Inl e
      | Inr v \<Rightarrow>
          if v \<noteq> 0 then Inr False
          else (case block_len ''Audio'' (Audio ps) of
                  Inl e \<Rightarrow> Inl e
                | Inr a \<Rightarrow>
                    if a \<noteq> 0 then Inr False
                    else (case block_len ''Thumbnails'' (Thumbnails ps) of
                            Inl e \<Rightarrow> Inl e
                          | Inr t \<Rightarrow> Inr (t = 0))))"

section \<open>The reconciler\<close>

text \<open>
  \<open>delete_preset_by_id\<close>. Its handler calls \<open>module.fail_json\<close>, but \<open>module\<close> is neither a
  parameter nor a global of the file, so a refused delete ends in \<open>NameError\<close>.
\<close>

definition delete_preset_by_id :: "client \<Rightarrow> string \<Rightarrow> string \<Rightarrow> (failure + unit) \<times> client" where
  "delete_preset_by_id client preset_name preset_id =
     (case client_delete_preset client preset_id of
        (Inl e, client') \<Rightarrow> (Inl (Uncaught (NameError ''module'')), client')
      | (Inr u, client') \<Rightarrow> (Inr (), client'))"

text \<open>
  \<open>create_preset\<close> from line 199 on, once the lookup and the delete of recreate mode are
  behind: the description, the container, the document, the three blocks, the test for
  empty blocks, and the create call outside check mode. \<open>client\<close> is the client as those
  first steps left it.
\<close>

definition create_preset_rest ::
  "client \<Rightarrow> ansible_module \<Rightarrow> (string \<Rightarrow> host_file) \<Rightarrow> string \<Rightarrow> (failure + result) \<times> client" where
  "create_preset_rest client module os PresetName =
     (case truthy_str (container module) of
        None \<Rightarrow> (Inl (FailJson ''Missing required argument: container''), client)
      | Some c \<Rightarrow>
     (case load_template module os of
        Inl f \<Rightarrow> (Inl f, client)
      | Inr PresetTemplate \<Rightarrow>
     (case template_block PresetTemplate ''Video'' of
        Inl e \<Rightarrow> (Inl (Uncaught e), client)
      | Inr video \<Rightarrow>
     (case template_block PresetTemplate ''Audio'' of
        Inl e \<Rightarrow> (Inl (Uncaught e), client)
      | Inr audio \<Rightarrow>
     (case template_block PresetTemplate ''Thumbnails'' of
        Inl e \<Rightarrow> (Inl (Uncaught e), client)
      | Inr thumbnails \<Rightarrow>
     (let ps = \<lparr>Name = PresetName, Description = truthy_str (description module),
                Container = c, Video = video, Audio = audio, Thumbnails = thumbnails\<rparr>
      in case no_specs ps of
           Inl e \<Rightarrow> (Inl (Uncaught e), client)
         | Inr True \<Rightarrow>
             (Inl (FailJson ''No specs provided for Video, Audio, or Thumbnails. ''), client)
         | Inr False \<Rightarrow>
             if \<not> check_mode module then
               (case client_create_preset client ps of
                  (Inl (NotSent e), client') \<Rightarrow> (Inl (Uncaught (ParamValidationError e)), client')
                | (Inl (Refused e), client') \<Rightarrow>
                    (Inl (FailJson (''Invalid preset settings: '' @ e)), client')
                | (Inr p, client') \<Rightarrow>
                    (Inr \<lparr>res_name = preset_Name p, res_id = PStr (preset_Id p),
                          res_arn = PStr (preset_Arn p),
                          res_msg = ''Preset created successfully'',
                          res_changed = Some (PStr ''true'')\<rparr>, client'))
             else
               (Inr \<lparr>res_name = [], res_id = PStr [], res_arn = PStr [],
                     res_msg = ''Preset created successfully'',
                     res_changed = Some (PStr ''true'')\<rparr>, client)))))))"

text \<open>
  \<open>create_preset\<close>, lines 165 to 197: the name, the lookup, the early return for a preset
  that exists, the delete of recreate mode (issued whatever \<open>check_mode\<close> says); then the
  rest of the function.
\<close>

definition create_preset :: "client \<Rightarrow> ansible_module \<Rightarrow> (string \<Rightarrow> host_file) \<Rightarrow> (failure + result) \<times> client" where
  "create_preset client module os =
     (case truthy_str (name module) of
        None \<Rightarrow> (Inl (FailJson ''Missing required argument: name''), client)
      | Some PresetName \<Rightarrow>
     (case get_preset_id client PresetName of
        ((PresetId, PresetArn), client1) \<Rightarrow>
     if truthy_str PresetId \<noteq> None \<and> \<not> recreate module then
       (Inr \<lparr>res_name = PresetName, res_id = of_opt PresetId, res_arn = of_opt PresetArn,
             res_msg = ''Preset already exists'', res_changed = None\<rparr>, client1)
     else
     (case (case truthy_str PresetId of
              Some i \<Rightarrow> if recreate module then delete_preset_by_id client1 PresetName i
                        else (Inr (), client1)
            | None \<Rightarrow> (Inr (), client1)) of
        (Inl f, client2) \<Rightarrow> (Inl f, client2)
      | (Inr u, client2) \<Rightarrow> create_preset_rest client2 module os PresetName)))"

text \<open>
  \<open>delete_preset\<close>. The message and the flag are first set for a deletion, and are only
  replaced when nothing was found outside check mode. (The handlers name
  \<open>botocore.exceptions.ClientError\<close>; the name \<open>botocore\<close> reaches the file through the
  star import of \<open>ansible.module_utils.ec2\<close>.)
\<close>

definition delete_preset :: "client \<Rightarrow> ansible_module \<Rightarrow> (failure + result) \<times> client" where
  "delete_preset client module =
     (case truthy_str (name module) of
        None \<Rightarrow> (Inl (FailJson ''Missing required argument: name''), client)
      | Some PresetName \<Rightarrow>
     (case get_preset_id client PresetName of
        ((PresetId, PresetArn), client1) \<Rightarrow>
     (case truthy_str PresetId of
        Some i \<Rightarrow>
          if \<not> check_mode module then
            (case client_delete_preset client1 i of
               (Inl e, client2) \<Rightarrow>
                 (Inl (FailJson (''Failed to delete preset '' @ PresetName @ '': '' @ e)), client2)
             | (Inr u, client2) \<Rightarrow>
                 (Inr \<lparr>res_name = PresetName, res_id = of_opt PresetId, res_arn = of_opt PresetArn,
                       res_msg = ''Preset deleted successfully'',
                       res_changed = Some (PStr ''true'')\<rparr>, client2))
          else
            (Inr \<lparr>res_name = PresetName, res_id = of_opt PresetId, res_arn = of_opt PresetArn,
                  res_msg = ''Preset deleted successfully'',
                  res_changed = Some (PStr ''true'')\<rparr>, client1)
      | None \<Rightarrow>
          if \<not> check_mode module then
            (Inr \<lparr>res_name = PresetName, res_id = PStr [], res_arn = PStr [],
                  res_msg = ''Preset not found'', res_changed = Some (PStr ''false'')\<rparr>, client1)
          else
            (Inr \<lparr>res_name = PresetName, res_id = PStr [], res_arn = PStr [],
                  res_msg = ''Preset deleted successfully'',
                  res_changed = Some (PStr ''true'')\<rparr>, client1))))"

text \<open>
  The framework's \<open>exit_json\<close> reports the result; a result without the key \<open>changed\<close> is
  reported with \<open>changed\<close> set to \<open>False\<close>, any other value is passed on as it is.
\<close>

definition exit_json :: "result \<Rightarrow> result" where
  "exit_json results =
     (case res_changed results of
        None \<Rightarrow> results\<lparr>res_changed := Some (PBool False)\<rparr>
      | Some v \<Rightarrow> results)"

text \<open>
  \<open>main\<close>. The argument \<open>name\<close> is declared \<open>required=True\<close> (line 289), so the
  framework's \<open>AnsibleModule\<close> (line 319) ends an invocation without a name with its own
  message before anything else runs; the empty string counts as given. Then comes the
  dispatch on \<open>state\<close>; the client is the one the bootstrap built.
\<close>

definition main :: "client \<Rightarrow> ansible_module \<Rightarrow> (string \<Rightarrow> host_file) \<Rightarrow> (failure + result) \<times> client" where
  "main transcoder module os =
     (case name module of
        None \<Rightarrow> (Inl (FailJson ''missing required arguments: name''), transcoder)
      | Some n \<Rightarrow>
          (case (case state module of
                   Present \<Rightarrow> create_preset transcoder module os
                 | Absent \<Rightarrow> delete_preset transcoder module) of
             (Inl f, client') \<Rightarrow> (Inl f, client')
           | (Inr results, client') \<Rightarrow> (Inr (exit_json results), client')))"

text \<open>The calls an invocation added to the log of the client it started from.\<close>

definition issued :: "client \<Rightarrow> client \<Rightarrow> call list" where
  "issued client client' = drop (length (calls client)) (calls client')"

text \<open>Every entry of a listing, page after page.\<close>

definition catalog_entries :: "page list \<Rightarrow> preset list" where
  "catalog_entries pgs = concat (map page_entries pgs)"

text \<open>
  The preset an invocation finds in place: the id that the lookup returns for the name of
  the module, when the name is given and the id is not empty.
\<close>

definition existing :: "client \<Rightarrow> ansible_module \<Rightarrow> string option" where
  "existing client module =
     (case truthy_str (name module) of
        None \<Rightarrow> None
      | Some n \<Rightarrow> truthy_str (fst (fst (get_preset_id client n))))"

text \<open>
  An invocation gets past line 197 of \<open>create_preset\<close> when the name is given and either no
  preset is found in place, or \<open>recreate\<close> is set and the service accepts the delete.
\<close>

definition reaches_rest :: "client \<Rightarrow> ansible_module \<Rightarrow> bool" where
  "reaches_rest client module =
     (case truthy_str (name module) of
        None \<Rightarrow> False
      | Some n \<Rightarrow>
          (case existing client module of
             None \<Rightarrow> True
           | Some i \<Rightarrow> recreate module \<and> delete_error client i = None))"

section \<open>A worked scenario\<close>

text \<open>
  A listing of two pages: one preset named \<open>hd\<close>, and two presets that share the name
  \<open>sd\<close>. The service accepts every delete and every create whose blocks are objects.
\<close>

definition shop :: "page list" where
  "shop =
     [\<lparr>NextPageToken = Some ''t1'',
       Presets = Some [\<lparr>preset_Name = ''hd'', preset_Id = ''1'', preset_Arn = ''arn:1''\<rparr>]\<rparr>,
      \<lparr>NextPageToken = None,
       Presets = Some [\<lparr>preset_Name = ''sd'', preset_Id = ''2'', preset_Arn = ''arn:2''\<rparr>,
                       \<lparr>preset_Name = ''sd'', preset_Id = ''3'', preset_Arn = ''arn:3''\<rparr>]\<rparr>]"

definition service :: "page list \<Rightarrow> client" where
  "service pgs =
     \<lparr>catalog = pgs, delete_error = (\<lambda>i. None), param_error = (\<lambda>ps. None),
      create_reply = (\<lambda>ps. Inr \<lparr>preset_Name = Name ps, preset_Id = ''9'', preset_Arn = ''arn:9''\<rparr>),
      calls = []\<rparr>"

text \<open>A task with a name and the container \<open>mp4\<close>, no document, no recreate, no check mode.\<close>

definition task :: "string \<Rightarrow> target \<Rightarrow> ansible_module" where
  "task n s =
     \<lparr>name = Some n, description = None, state = s, recreate = False,
      container = Some ''mp4'', preset_document = None, check_mode = False\<rparr>"

text \<open>
  The files of the host: a document with a Video block, one with an Audio block only, one
  whose three blocks are empty, one that is not JSON, one that cannot be read.
\<close>

definition disk :: "string \<Rightarrow> host_file" where
  "disk path =
     (if path = ''v.json'' then Loaded (JObj [(''Video'', JObj [(''Codec'', JStr ''H.264'')])])
      else if path = ''a.json'' then Loaded (JObj [(''Audio'', JObj [(''Codec'', JStr ''mp3'')])])
      else if path = ''e.json'' then
        Loaded (JObj [(''Video'', JObj []), (''Audio'', JObj []), (''Thumbnails'', JObj [])])
      else if path = ''bad.json'' then Malformed ''No JSON object could be decoded''
      else if path = ''locked.json'' then Unreadable ''Permission denied''
      else NoFile)"

section \<open>The locator meets its specification\<close>

lemma preset_loop_find: "preset_loop ps n = find (\<lambda>p. preset_Name p = n) ps"
  by (induction ps) auto

lemma find_append_case:
  "find P (xs @ ys) = (case find P xs of None \<Rightarrow> find P ys | Some x \<Rightarrow> Some x)"
  by (induction xs) auto

lemma page_loop_spec:
  "page_loop pgs n client =
     (first_match pgs n, client\<lparr>calls := calls client @ replicate (pages_requested pgs n) ListPresets\<rparr>)"
proof (induction pgs arbitrary: client)
  case Nil
  show ?case by (simp add: first_match_def pages_requested_def)
next
  case (Cons pg pgs)
  show ?case
  proof (cases "find (\<lambda>p. preset_Name p = n) (page_entries pg)")
    case (Some p)
    then show ?thesis
      by (cases "Presets pg")
         (auto simp: first_match_def pages_requested_def page_entries_def preset_loop_find
                     issue_def Let_def find_append_case)
  next
    case None
    show ?thesis
    proof (cases "NextPageToken pg")
      case no_token: None
      with None show ?thesis
        by (cases "Presets pg")
           (auto simp: first_match_def pages_requested_def page_entries_def preset_loop_find
                       issue_def Let_def find_append_case)
    next
      case (Some t)
      with None Cons.IH [of "issue ListPresets client"] show ?thesis
        by (cases "Presets pg")
           (auto simp: first_match_def pages_requested_def page_entries_def preset_loop_find
                       issue_def Let_def replicate_append_same find_append_case)
    qed
  qed
qed

lemma get_preset_id_eq:
  "get_preset_id client n =
     (first_match (catalog client) n,
      client\<lparr>calls := calls client @ replicate (pages_requested (catalog client) n) ListPresets\<rparr>)"
  by (simp add: get_preset_id_def page_loop_spec)

lemma set_walked: "set (walked pgs) \<subseteq> set pgs"
  by (induction pgs) auto

lemma first_match_absent:
  assumes "n \<notin> preset_Name ` set (catalog_entries pgs)"
  shows "first_match pgs n = (None, None)"
proof -
  have "set (concat (map page_entries (walked pgs))) \<subseteq> set (catalog_entries pgs)"
    using set_walked [of pgs] by (auto simp: catalog_entries_def)
  with assms have "find (\<lambda>p. preset_Name p = n) (concat (map page_entries (walked pgs))) = None"
    by (auto simp: find_None_iff)
  then show ?thesis by (simp add: first_match_def)
qed

lemma issued_append [simp]: "issued client (client'\<lparr>calls := calls client @ xs\<rparr>) = xs"
  by (simp add: issued_def)




text \<open>
  Names are compared as they are written: \<open>sd\<close> is listed, \<open>SD\<close> is not found, and the
  first of the two presets named \<open>sd\<close> is the one returned.
\<close>

lemma locator_is_case_sensitive:
  "fst (get_preset_id (service shop) ''SD'') = (None, None)
   \<and> fst (get_preset_id (service shop) ''sd'') = (Some ''2'', Some ''arn:2'')"
  by (simp add: get_preset_id_def issue_def service_def shop_def)

section \<open>Paths through the reconciler\<close>


lemma rest_client:
  "snd (create_preset_rest c m os n) = c
   \<or> (\<exists>ps. snd (create_preset_rest c m os n) = issue (CreatePreset ps) c)
   \<or> (\<exists>ps p. snd (create_preset_rest c m os n) =
         (issue (CreatePreset ps) c)\<lparr>catalog := catalog_add p (catalog c)\<rparr>)"
  by (auto simp: create_preset_rest_def Let_def client_create_preset_def
      split: option.splits sum.splits prod.splits bool.splits create_error.splits)

lemma rest_calls:
  "\<exists>M. calls (snd (create_preset_rest c m os n)) = calls c @ M
       \<and> (M = [] \<or> (\<exists>ps. M = [CreatePreset ps]))"
  using rest_client [of c m os n] by (auto simp: issue_def)

lemma rest_no_delete:
  "filter is_delete (issued c0 (snd (create_preset_rest c m os n))) = filter is_delete (issued c0 c)"
proof -
  obtain M where "calls (snd (create_preset_rest c m os n)) = calls c @ M"
    and "M = [] \<or> (\<exists>ps. M = [CreatePreset ps])"
    using rest_calls by blast
  moreover have "filter is_delete (drop k [CreatePreset ps]) = []" for k ps
    by (cases k) simp_all
  ultimately show ?thesis by (auto simp: issued_def)
qed

lemma rest_recreate [simp]:
  "create_preset_rest c (m\<lparr>recreate := r\<rparr>) os n = create_preset_rest c m os n"
  by (simp add: create_preset_rest_def load_template_def Let_def
      cong: option.case_cong sum.case_cong bool.case_cong if_cong)

lemma rest_shape:
  "\<exists>M. calls (snd (create_preset_rest c m os n)) = calls c @ M
       \<and> (M = [] \<or> (\<exists>ps. M = [CreatePreset ps]))
       \<and> (\<not> isl (fst (create_preset_rest c m os n)) \<and> \<not> check_mode m \<longrightarrow> M \<noteq> [])
       \<and> (M \<noteq> [] \<longrightarrow> \<not> check_mode m
            \<and> (\<not> isl (fst (create_preset_rest c m os n))
                 \<or> (\<exists>e. fst (create_preset_rest c m os n) =
                           Inl (FailJson (''Invalid preset settings: '' @ e)))))"
  by (auto simp: create_preset_rest_def Let_def client_create_preset_def issue_def
      split: option.splits sum.splits prod.splits bool.splits create_error.splits)

lemma rest_no_container:
  "truthy_str (container m) = None \<Longrightarrow>
   create_preset_rest c m os n = (Inl (FailJson ''Missing required argument: container''), c)"
  by (simp add: create_preset_rest_def)

lemma rest_load_fails:
  "truthy_str (container m) \<noteq> None \<Longrightarrow> load_template m os = Inl f \<Longrightarrow>
   create_preset_rest c m os n = (Inl f, c)"
  by (auto simp: create_preset_rest_def)

lemma rest_empty_blocks:
  assumes "truthy_str (container m) \<noteq> None" and "load_template m os = Inr T"
    and "template_block T ''Video'' = Inr (Some v)" and "py_len v = Inr 0"
    and "template_block T ''Audio'' = Inr (Some a)" and "py_len a = Inr 0"
    and "template_block T ''Thumbnails'' = Inr (Some t)" and "py_len t = Inr 0"
  shows "create_preset_rest c m os n =
           (Inl (FailJson ''No specs provided for Video, Audio, or Thumbnails. ''), c)"
  using assms by (auto simp: create_preset_rest_def no_specs_def)

lemma main_unnamed:
  "name m = None \<Longrightarrow> main c m os = (Inl (FailJson ''missing required arguments: name''), c)"
  by (simp add: main_def)

lemma main_named:
  "name m \<noteq> None \<Longrightarrow>
   main c m os =
     (case (case state m of Present \<Rightarrow> create_preset c m os | Absent \<Rightarrow> delete_preset c m) of
        (Inl f, c') \<Rightarrow> (Inl f, c')
      | (Inr r, c') \<Rightarrow> (Inr (exit_json r), c'))"
  by (auto simp: main_def)

lemma snd_main: "snd (main c m os) =
   (case state m of Present \<Rightarrow> snd (create_preset c m os) | Absent \<Rightarrow> snd (delete_preset c m))"
proof (cases "name m")
  case None
  then show ?thesis
    by (simp add: main_unnamed create_preset_def delete_preset_def truthy_str_def
          split: target.splits)
next
  case (Some n)
  then show ?thesis
    by (simp add: main_named split: target.splits prod.splits sum.splits)
qed

lemma main_absent:
  "state m = Absent \<Longrightarrow> name m \<noteq> None \<Longrightarrow>
   main c m os = (case delete_preset c m of (Inl f, c') \<Rightarrow> (Inl f, c')
                  | (Inr r, c') \<Rightarrow> (Inr (exit_json r), c'))"
  by (simp add: main_named)

lemma main_present:
  "state m = Present \<Longrightarrow> name m \<noteq> None \<Longrightarrow>
   main c m os = (case create_preset c m os of (Inl f, c') \<Rightarrow> (Inl f, c')
                  | (Inr r, c') \<Rightarrow> (Inr (exit_json r), c'))"
  by (simp add: main_named)

lemma fst_main_present:
  "state m = Present \<Longrightarrow> name m \<noteq> None \<Longrightarrow> fst (create_preset c m os) = Inl f \<Longrightarrow>
   fst (main c m os) = Inl f"
  by (cases "create_preset c m os") (simp add: main_present)

lemma fst_main_ok:
  "state m = Present \<Longrightarrow> name m \<noteq> None \<Longrightarrow>
   fst (main c m os) = map_sum id exit_json (fst (create_preset c m os))"
  by (cases "create_preset c m os") (simp add: main_present split: sum.splits)

lemma fst_main_isl: "isl (fst (main c m os)) =
   (case state m of Present \<Rightarrow> isl (fst (create_preset c m os))
    | Absent \<Rightarrow> isl (fst (delete_preset c m)))"
proof (cases "name m")
  case None
  then show ?thesis
    by (simp add: main_unnamed create_preset_def delete_preset_def truthy_str_def
          split: target.splits)
next
  case (Some n)
  then show ?thesis
    by (simp add: main_named split: target.splits prod.splits sum.splits)
qed

lemma no_name_present:
  "truthy_str (name m) = None \<Longrightarrow>
   create_preset c m os = (Inl (FailJson ''Missing required argument: name''), c)"
  by (simp add: create_preset_def)

lemma no_name_absent:
  "truthy_str (name m) = None \<Longrightarrow>
   delete_preset c m = (Inl (FailJson ''Missing required argument: name''), c)"
  by (simp add: delete_preset_def)

lemma truthy_name: "truthy_str (name m) = Some n \<Longrightarrow> name m = Some n \<and> n \<noteq> []"
  by (auto simp: truthy_str_def split: option.splits if_splits)

lemma create_preset_run:
  assumes "name m = Some n" and "n \<noteq> []" and "first_match (catalog c) n = (x, a)"
  shows "create_preset c m os =
    (if truthy_str x \<noteq> None \<and> \<not> recreate m then
       (Inr \<lparr>res_name = n, res_id = of_opt x, res_arn = of_opt a,
             res_msg = ''Preset already exists'', res_changed = None\<rparr>,
        c\<lparr>calls := calls c @ replicate (pages_requested (catalog c) n) ListPresets\<rparr>)
     else
       (case (case truthy_str x of
                Some i \<Rightarrow>
                  if recreate m then
                    delete_preset_by_id
                      (c\<lparr>calls := calls c @ replicate (pages_requested (catalog c) n) ListPresets\<rparr>) n i
                  else (Inr (), c\<lparr>calls := calls c @ replicate (pages_requested (catalog c) n) ListPresets\<rparr>)
              | None \<Rightarrow> (Inr (), c\<lparr>calls := calls c @ replicate (pages_requested (catalog c) n) ListPresets\<rparr>)) of
          (Inl f, c2) \<Rightarrow> (Inl f, c2)
        | (Inr u, c2) \<Rightarrow> create_preset_rest c2 m os n))"
  using assms by (simp add: create_preset_def get_preset_id_eq truthy_str_def)

lemma delete_preset_run:
  assumes "name m = Some n" and "n \<noteq> []" and "first_match (catalog c) n = (x, a)"
  shows "delete_preset c m =
    (case truthy_str x of
       Some i \<Rightarrow>
         if \<not> check_mode m then
           (case client_delete_preset
                   (c\<lparr>calls := calls c @ replicate (pages_requested (catalog c) n) ListPresets\<rparr>) i of
              (Inl e, c2) \<Rightarrow> (Inl (FailJson (''Failed to delete preset '' @ n @ '': '' @ e)), c2)
            | (Inr u, c2) \<Rightarrow>
                (Inr \<lparr>res_name = n, res_id = of_opt x, res_arn = of_opt a,
                      res_msg = ''Preset deleted successfully'',
                      res_changed = Some (PStr ''true'')\<rparr>, c2))
         else
           (Inr \<lparr>res_name = n, res_id = of_opt x, res_arn = of_opt a,
                 res_msg = ''Preset deleted successfully'',
                 res_changed = Some (PStr ''true'')\<rparr>,
            c\<lparr>calls := calls c @ replicate (pages_requested (catalog c) n) ListPresets\<rparr>)
     | None \<Rightarrow>
         if \<not> check_mode m then
           (Inr \<lparr>res_name = n, res_id = PStr [], res_arn = PStr [],
                 res_msg = ''Preset not found'', res_changed = Some (PStr ''false'')\<rparr>,
            c\<lparr>calls := calls c @ replicate (pages_requested (catalog c) n) ListPresets\<rparr>)
         else
           (Inr \<lparr>res_name = n, res_id = PStr [], res_arn = PStr [],
                 res_msg = ''Preset deleted successfully'',
                 res_changed = Some (PStr ''true'')\<rparr>,
            c\<lparr>calls := calls c @ replicate (pages_requested (catalog c) n) ListPresets\<rparr>))"
  using assms by (simp add: delete_preset_def get_preset_id_eq truthy_str_def)

lemma existing_run:
  assumes "name m = Some n" and "n \<noteq> []" and "first_match (catalog c) n = (x, a)"
  shows "existing c m = truthy_str x"
  using assms by (simp add: existing_def get_preset_id_eq truthy_str_def)

lemma reaches_named: "reaches_rest c m \<Longrightarrow> name m \<noteq> None"
  by (auto simp: reaches_rest_def truthy_str_def split: option.splits)

lemma reaches_rest_run:
  assumes "reaches_rest c m"
  shows "\<exists>n c2. truthy_str (name m) = Some n
           \<and> create_preset c m os = create_preset_rest c2 m os n
           \<and> filter is_create (issued c c2) = []
           \<and> (existing c m = None \<longrightarrow> filter mutating (issued c c2) = [] \<and> catalog c2 = catalog c)
           \<and> (\<forall>i. existing c m = Some i \<longrightarrow> filter mutating (issued c c2) = [DeletePreset i])"
proof -
  from assms obtain n where n: "truthy_str (name m) = Some n"
    by (auto simp: reaches_rest_def split: option.splits)
  note nm = truthy_name [OF n]
  obtain x a where f: "first_match (catalog c) n = (x, a)"
    by (cases "first_match (catalog c) n")
  note run = create_preset_run [OF conjunct1 [OF nm] conjunct2 [OF nm] f, of os]
  note ex = existing_run [OF conjunct1 [OF nm] conjunct2 [OF nm] f]
  let ?c1 = "c\<lparr>calls := calls c @ replicate (pages_requested (catalog c) n) ListPresets\<rparr>"
  show ?thesis
  proof (cases "truthy_str x")
    case None
    with run have "create_preset c m os = create_preset_rest ?c1 m os n" by simp
    then show ?thesis using n ex None
      by (intro exI [of _ n] exI [of _ ?c1]) (simp add: issued_def)
  next
    case (Some i)
    let ?c2 = "(issue (DeletePreset i) ?c1)\<lparr>catalog := catalog_remove i (catalog c)\<rparr>"
    from assms n ex Some have "recreate m" and "delete_error c i = None"
      by (simp_all add: reaches_rest_def)
    with run Some have "create_preset c m os = create_preset_rest ?c2 m os n"
      by (simp add: delete_preset_by_id_def client_delete_preset_def)
    then show ?thesis using n ex Some
      by (intro exI [of _ n] exI [of _ ?c2]) (simp add: issued_def issue_def)
  qed
qed

lemma create_preset_calls:
  "\<exists>k D M. issued c (snd (create_preset c m os)) = replicate k ListPresets @ D @ M
     \<and> (D = [] \<or> (\<exists>i. existing c m = Some i \<and> D = [DeletePreset i] \<and> recreate m
                      \<and> (M \<noteq> [] \<longrightarrow> delete_error c i = None)))
     \<and> (M = [] \<or> (\<exists>ps. M = [CreatePreset ps]))
     \<and> (\<forall>i. existing c m = Some i \<and> recreate m \<longrightarrow> D = [DeletePreset i])
     \<and> (\<not> isl (fst (create_preset c m os)) \<and> \<not> check_mode m
          \<and> (existing c m = None \<or> recreate m) \<longrightarrow> M \<noteq> [])
     \<and> (M \<noteq> [] \<longrightarrow> \<not> check_mode m
          \<and> (\<not> isl (fst (create_preset c m os))
               \<or> (\<exists>e. fst (create_preset c m os) =
                         Inl (FailJson (''Invalid preset settings: '' @ e)))))"
proof (cases "truthy_str (name m)")
  case None
  then have "existing c m = None" by (simp add: existing_def)
  with None show ?thesis by (simp add: no_name_present issued_def)
next
  case (Some n)
  note nm = truthy_name [OF Some]
  obtain x a where f: "first_match (catalog c) n = (x, a)"
    by (cases "first_match (catalog c) n")
  note run = create_preset_run [OF conjunct1 [OF nm] conjunct2 [OF nm] f, of os]
  note ex = existing_run [OF conjunct1 [OF nm] conjunct2 [OF nm] f]
  let ?k = "pages_requested (catalog c) n"
  let ?c1 = "c\<lparr>calls := calls c @ replicate ?k ListPresets\<rparr>"
  show ?thesis
  proof (cases "truthy_str x")
    case None
    from rest_shape [of ?c1 m os n] obtain M
      where M: "calls (snd (create_preset_rest ?c1 m os n)) = calls ?c1 @ M"
        "M = [] \<or> (\<exists>ps. M = [CreatePreset ps])"
        "\<not> isl (fst (create_preset_rest ?c1 m os n)) \<and> \<not> check_mode m \<longrightarrow> M \<noteq> []"
        "M \<noteq> [] \<longrightarrow> \<not> check_mode m
            \<and> (\<not> isl (fst (create_preset_rest ?c1 m os n))
                 \<or> (\<exists>e. fst (create_preset_rest ?c1 m os n) =
                           Inl (FailJson (''Invalid preset settings: '' @ e))))"
      by blast
    have "issued c (snd (create_preset c m os)) = replicate ?k ListPresets @ [] @ M"
      using run None M(1) by (simp add: issued_def)
    moreover have "\<not> isl (fst (create_preset c m os)) \<and> \<not> check_mode m \<longrightarrow> M \<noteq> []"
      using run None M(3) by simp
    moreover have "(M \<noteq> [] \<longrightarrow> \<not> check_mode m
          \<and> (\<not> isl (fst (create_preset c m os))
               \<or> (\<exists>e. fst (create_preset c m os) =
                         Inl (FailJson (''Invalid preset settings: '' @ e)))))"
      using run None M(4) by simp
    ultimately show ?thesis using M(2) ex None
      by (intro exI [of _ ?k] exI [of _ "[]"] exI [of _ M]) auto
  next
    case (Some i)
    show ?thesis
    proof (cases "recreate m")
      case False
      with run Some have "issued c (snd (create_preset c m os)) = replicate ?k ListPresets @ [] @ []"
        by (simp add: issued_def)
      then show ?thesis using ex Some False
        by (intro exI [of _ ?k] exI [of _ "[]"]) auto
    next
      case True
      show ?thesis
      proof (cases "delete_error c i")
        case (Some e)
        with run \<open>truthy_str x = Some i\<close> True
        have "issued c (snd (create_preset c m os)) = replicate ?k ListPresets @ [DeletePreset i] @ []"
          and "isl (fst (create_preset c m os))"
          by (simp_all add: issued_def delete_preset_by_id_def client_delete_preset_def issue_def)
        then show ?thesis using ex \<open>truthy_str x = Some i\<close> True
          by (intro exI [of _ ?k] exI [of _ "[DeletePreset i]"] exI [of _ "[]"]) auto
      next
        case None
        let ?c2 = "(issue (DeletePreset i) ?c1)\<lparr>catalog := catalog_remove i (catalog c)\<rparr>"
        from rest_shape [of ?c2 m os n] obtain M
          where M: "calls (snd (create_preset_rest ?c2 m os n)) = calls ?c2 @ M"
            "M = [] \<or> (\<exists>ps. M = [CreatePreset ps])"
            "\<not> isl (fst (create_preset_rest ?c2 m os n)) \<and> \<not> check_mode m \<longrightarrow> M \<noteq> []"
            "M \<noteq> [] \<longrightarrow> \<not> check_mode m
                \<and> (\<not> isl (fst (create_preset_rest ?c2 m os n))
                     \<or> (\<exists>e. fst (create_preset_rest ?c2 m os n) =
                               Inl (FailJson (''Invalid preset settings: '' @ e))))"
          by blast
        have r: "create_preset c m os = create_preset_rest ?c2 m os n"
          using run \<open>truthy_str x = Some i\<close> True None
          by (simp add: delete_preset_by_id_def client_delete_preset_def)
        have "issued c (snd (create_preset c m os)) = replicate ?k ListPresets @ [DeletePreset i] @ M"
          using r M(1) by (simp add: issued_def issue_def)
        moreover have "\<not> isl (fst (create_preset c m os)) \<and> \<not> check_mode m \<longrightarrow> M \<noteq> []"
          using r M(3) by simp
        moreover have "(M \<noteq> [] \<longrightarrow> \<not> check_mode m
          \<and> (\<not> isl (fst (create_preset c m os))
               \<or> (\<exists>e. fst (create_preset c m os) =
                         Inl (FailJson (''Invalid preset settings: '' @ e)))))"
          using r M(4) by simp
        ultimately show ?thesis using M(2) ex \<open>truthy_str x = Some i\<close> True None
          by (intro exI [of _ ?k] exI [of _ "[DeletePreset i]"] exI [of _ M]) auto
      qed
    qed
  qed
qed

lemma delete_preset_calls:
  "\<exists>k D. issued c (snd (delete_preset c m)) = replicate k ListPresets @ D
     \<and> (D = [] \<or> (\<exists>i. existing c m = Some i \<and> D = [DeletePreset i] \<and> \<not> check_mode m))"
proof (cases "truthy_str (name m)")
  case None
  then show ?thesis by (simp add: no_name_absent issued_def)
next
  case (Some n)
  note nm = truthy_name [OF Some]
  obtain x a where f: "first_match (catalog c) n = (x, a)"
    by (cases "first_match (catalog c) n")
  note run = delete_preset_run [OF conjunct1 [OF nm] conjunct2 [OF nm] f]
  note ex = existing_run [OF conjunct1 [OF nm] conjunct2 [OF nm] f]
  let ?k = "pages_requested (catalog c) n"
  show ?thesis
  proof (cases "truthy_str x = None \<or> check_mode m")
    case True
    then have "issued c (snd (delete_preset c m)) = replicate ?k ListPresets @ []"
      using run by (auto simp: issued_def split: option.splits)
    then show ?thesis by (intro exI [of _ ?k] exI [of _ "[]"]) auto
  next
    case False
    then obtain i where i: "truthy_str x = Some i" "\<not> check_mode m" by auto
    then have "issued c (snd (delete_preset c m)) = replicate ?k ListPresets @ [DeletePreset i]"
      using run
      by (auto simp: issued_def client_delete_preset_def issue_def split: option.splits)
    then show ?thesis using ex i
      by (intro exI [of _ ?k] exI [of _ "[DeletePreset i]"]) auto
  qed
qed

lemma shape_filters:
  assumes "D = [] \<or> (\<exists>i. D = [DeletePreset i])" and "M = [] \<or> (\<exists>ps. M = [CreatePreset ps])"
  shows "filter is_delete (replicate k ListPresets @ D @ M) = D"
    and "filter is_create (replicate k ListPresets @ D @ M) = M"
    and "filter mutating (replicate k ListPresets @ D @ M) = D @ M"
  using assms by auto


lemmas eval_defs = main_def request_error_def create_preset_def create_preset_rest_def delete_preset_def
  get_preset_id_def delete_preset_by_id_def client_delete_preset_def client_create_preset_def
  issue_def truthy_str_def of_opt_def load_template_def no_specs_def exit_json_def issued_def
  catalog_remove_def existing_def reaches_rest_def catalog_entries_def page_entries_def
  shop_def service_def task_def disk_def

section \<open>The claims\<close>

text \<open>
  C1. A \<open>present\<close> invocation whose lookup finds a preset of the given name, with
  \<open>recreate\<close> false, issues no create and no delete, leaves the catalog alone, and
  returns the id, arn and name of that preset with the message "Preset already exists".
  \<open>create_preset\<close> stores no \<open>changed\<close> key on this path, and the invocation is
  reported with \<open>changed\<close> false. (The test \<open>if PresetId\<close> takes an id that is
  not the empty string; the service never sends an empty id.)
\<close>

theorem present_existing_unchanged:
  assumes "state module = Present" and "name module = Some n" and "n \<noteq> []"
    and "fst (get_preset_id client n) = (Some i, Some a)" and "i \<noteq> []"
    and "\<not> recreate module"
  shows "main client module os =
           (Inr \<lparr>res_name = n, res_id = PStr i, res_arn = PStr a,
                 res_msg = ''Preset already exists'', res_changed = Some (PBool False)\<rparr>,
            snd (get_preset_id client n))
         \<and> fst (create_preset client module os) =
             Inr \<lparr>res_name = n, res_id = PStr i, res_arn = PStr a,
                   res_msg = ''Preset already exists'', res_changed = None\<rparr>
         \<and> filter mutating (issued client (snd (main client module os))) = []
         \<and> catalog (snd (main client module os)) = catalog client"
  using assms
  by (simp add: main_def create_preset_def truthy_str_def of_opt_def exit_json_def
        get_preset_id_eq split: prod.splits)

text \<open>
  C1 at work: the name \<open>sd\<close> is listed on the second page, with id \<open>2\<close>.
\<close>

theorem present_existing_unchanged_witness:
  "state (task ''sd'' Present) = Present \<and> name (task ''sd'' Present) = Some ''sd'' \<and> ''sd'' \<noteq> []
   \<and> fst (get_preset_id (service shop) ''sd'') = (Some ''2'', Some ''arn:2'') \<and> ''2'' \<noteq> []
   \<and> \<not> recreate (task ''sd'' Present)
   \<and> fst (main (service shop) (task ''sd'' Present) disk) =
        Inr \<lparr>res_name = ''sd'', res_id = PStr ''2'', res_arn = PStr ''arn:2'',
              res_msg = ''Preset already exists'', res_changed = Some (PBool False)\<rparr>
   \<and> filter mutating (issued (service shop) (snd (main (service shop) (task ''sd'' Present) disk))) = []"
proof -
  have h1: "state (task ''sd'' Present) = Present" by (simp add: task_def)
  have h2: "name (task ''sd'' Present) = Some ''sd''" by (simp add: task_def)
  have h3: "''sd'' \<noteq> []" by simp
  have h4: "fst (get_preset_id (service shop) ''sd'') = (Some ''2'', Some ''arn:2'')"
    by (simp add: get_preset_id_def service_def shop_def issue_def)
  have h5: "''2'' \<noteq> []" by simp
  have h6: "\<not> recreate (task ''sd'' Present)" by (simp add: task_def)
  note r = present_existing_unchanged [OF h1 h2 h3 h4 h5 h6, of disk]
  have a: "fst (main (service shop) (task ''sd'' Present) disk) =
        Inr \<lparr>res_name = ''sd'', res_id = PStr ''2'', res_arn = PStr ''arn:2'',
              res_msg = ''Preset already exists'', res_changed = Some (PBool False)\<rparr>"
    using r by (metis fst_conv)
  have b: "filter mutating (issued (service shop) (snd (main (service shop) (task ''sd'' Present) disk))) = []"
    using r by blast
  show ?thesis by (intro conjI h1 h2 h3 h4 h5 h6 a b)
qed

text \<open>
  C2, as the code has it. A \<open>present\<close> invocation that gets past the lookup (no preset in
  place, or \<open>recreate\<close> with an accepted delete), with a container, whose document holds
  the keys Video, Audio and Thumbnails, each with an empty value, fails with the message
  "No specs provided for Video, Audio, or Thumbnails. " and issues no create call.
\<close>

theorem empty_blocks_rejected:
  assumes "state module = Present" and "reaches_rest client module"
    and "truthy_str (container module) \<noteq> None" and "load_template module os = Inr T"
    and "template_block T ''Video'' = Inr (Some v)" and "py_len v = Inr 0"
    and "template_block T ''Audio'' = Inr (Some a)" and "py_len a = Inr 0"
    and "template_block T ''Thumbnails'' = Inr (Some t)" and "py_len t = Inr 0"
  shows "fst (main client module os) =
           Inl (FailJson ''No specs provided for Video, Audio, or Thumbnails. '')
         \<and> filter is_create (issued client (snd (main client module os))) = []"
proof -
  from reaches_rest_run [OF assms(2), of os] obtain n c2
    where r: "create_preset client module os = create_preset_rest c2 module os n"
      and nc: "filter is_create (issued client c2) = []"
    by blast
  note e = rest_empty_blocks [OF assms(3-10), of c2 n]
  from r e have "fst (create_preset client module os) =
      Inl (FailJson ''No specs provided for Video, Audio, or Thumbnails. '')"
    and "snd (create_preset client module os) = c2" by simp_all
  with nc assms(1) reaches_named [OF assms(2)] show ?thesis
    by (simp add: fst_main_present snd_main)
qed

text \<open>
  C2 at work: the preset \<open>sd\<close> is in place, \<open>recreate\<close> is set, and the three blocks of
  \<open>e.json\<close> are empty.
\<close>

theorem empty_blocks_rejected_witness:
  "state ((task ''sd'' Present)\<lparr>recreate := True, preset_document := Some ''e.json''\<rparr>) = Present
   \<and> reaches_rest (service shop)
        ((task ''sd'' Present)\<lparr>recreate := True, preset_document := Some ''e.json''\<rparr>)
   \<and> load_template ((task ''sd'' Present)\<lparr>recreate := True, preset_document := Some ''e.json''\<rparr>) disk =
        Inr (JObj [(''Video'', JObj []), (''Audio'', JObj []), (''Thumbnails'', JObj [])])
   \<and> fst (main (service shop)
            ((task ''sd'' Present)\<lparr>recreate := True, preset_document := Some ''e.json''\<rparr>) disk) =
        Inl (FailJson ''No specs provided for Video, Audio, or Thumbnails. '')
   \<and> filter is_create
        (issued (service shop)
           (snd (main (service shop)
                  ((task ''sd'' Present)\<lparr>recreate := True, preset_document := Some ''e.json''\<rparr>) disk))) = []"
proof -
  let ?m = "(task ''sd'' Present)\<lparr>recreate := True, preset_document := Some ''e.json''\<rparr>"
  let ?T = "JObj [(''Video'', JObj []), (''Audio'', JObj []), (''Thumbnails'', JObj [])]"
  have h1: "state ?m = Present" by (simp add: task_def)
  have h2: "reaches_rest (service shop) ?m"
    by (simp add: reaches_rest_def existing_def truthy_str_def get_preset_id_def issue_def
          task_def service_def shop_def)
  have h3: "truthy_str (container ?m) \<noteq> None" by (simp add: task_def truthy_str_def)
  have h4: "load_template ?m disk = Inr ?T"
    by (simp add: load_template_def truthy_str_def task_def disk_def)
  have v: "template_block ?T ''Video'' = Inr (Some (JObj []))" by simp
  have a: "template_block ?T ''Audio'' = Inr (Some (JObj []))" by simp
  have t: "template_block ?T ''Thumbnails'' = Inr (Some (JObj []))" by simp
  have l: "py_len (JObj []) = Inr 0" by simp
  note r = empty_blocks_rejected [OF h1 h2 h3 h4 v l a l t l]
  show ?thesis by (intro conjI h1 h2 h4 conjunct1 [OF r] conjunct2 [OF r])
qed

text \<open>
  C2 as stated fails on two inputs without a document. With the preset in place and
  \<open>recreate\<close> false the invocation succeeds, since the early return comes before any
  look at the document. With no preset in place, \<open>params['Video']\<close> was never stored and
  the test for empty blocks raises \<open>KeyError\<close>: no message of the module is reported.
\<close>

theorem empty_blocks_counterexample:
  "fst (main (service shop) (task ''sd'' Present) disk) =
     Inr \<lparr>res_name = ''sd'', res_id = PStr ''2'', res_arn = PStr ''arn:2'',
           res_msg = ''Preset already exists'', res_changed = Some (PBool False)\<rparr>
   \<and> fst (main (service shop) (task ''xx'' Present) disk) = Inl (Uncaught (KeyError ''Video''))"
  by (simp add: eval_defs)

text \<open>
  C3. The claim says that a block whose key is absent counts as empty, so that the test
  for empty blocks never fails on a missing key. The code stores a block only when the
  document has its key, and then reads \<open>params['Video']\<close> unguarded: a document with an
  Audio block only, and an invocation without a document, both end in
  \<open>KeyError: 'Video'\<close>.
\<close>

theorem audio_only_document_key_error:
  "fst (main (service shop)
          ((task ''xx'' Present)\<lparr>container := Some ''mp3'', preset_document := Some ''a.json''\<rparr>) disk)
     = Inl (Uncaught (KeyError ''Video''))
   \<and> fst (main (service shop) (task ''xx'' Present) disk) = Inl (Uncaught (KeyError ''Video''))"
  by (simp add: eval_defs)




text \<open>
  C5. For every name and every listing, the locator returns the id and arn of the first
  entry, in page order, whose name equals the name sought character for character,
  looking no further than the first page without a continuation token; it requests the
  pages up to the one that holds this entry and no more; without a match it returns the
  pair (None, None), an ordinary value; and it issues listing calls only, leaving the
  catalog as it was.
\<close>

theorem locator_first_match:
  "fst (get_preset_id client n) = first_match (catalog client) n
   \<and> issued client (snd (get_preset_id client n)) = replicate (pages_requested (catalog client) n) ListPresets
   \<and> filter mutating (issued client (snd (get_preset_id client n))) = []
   \<and> catalog (snd (get_preset_id client n)) = catalog client"
  by (simp add: get_preset_id_def page_loop_spec issued_def)

text \<open>
  C6, as the code has it. A \<open>present\<close> invocation without a name fails at once, before
  anything is looked up and with no call issued: the framework reports
  "missing required arguments: name" when the argument is not given, and line 179
  reports "Missing required argument: name" when it is the empty string. The container
  is tested after the lookup: without a container, and with no preset of that name in
  place, the invocation fails with "Missing required argument: container", having issued
  listing calls only; and no invocation without a container issues a create call.
\<close>

theorem required_arguments:
  assumes "state module = Present"
  shows "(name module = None \<longrightarrow>
            main client module os = (Inl (FailJson ''missing required arguments: name''), client))
       \<and> (name module = Some [] \<longrightarrow>
            main client module os = (Inl (FailJson ''Missing required argument: name''), client))
       \<and> (truthy_str (name module) \<noteq> None \<and> truthy_str (container module) = None
            \<and> existing client module = None \<longrightarrow>
            fst (main client module os) = Inl (FailJson ''Missing required argument: container'')
            \<and> filter mutating (issued client (snd (main client module os))) = []
            \<and> catalog (snd (main client module os)) = catalog client)
       \<and> (truthy_str (container module) = None \<longrightarrow>
            filter is_create (issued client (snd (main client module os))) = [])"
proof -
  have 0: "main client module os = (Inl (FailJson ''missing required arguments: name''), client)"
    if "name module = None"
    using that by (simp add: main_unnamed)
  have 1: "main client module os = (Inl (FailJson ''Missing required argument: name''), client)"
    if "name module = Some []"
    using that assms by (simp add: main_present no_name_present truthy_str_def)
  have 2: "fst (main client module os) = Inl (FailJson ''Missing required argument: container'')
            \<and> filter mutating (issued client (snd (main client module os))) = []
            \<and> catalog (snd (main client module os)) = catalog client"
    if a: "truthy_str (name module) \<noteq> None \<and> truthy_str (container module) = None
            \<and> existing client module = None"
  proof -
    from a have rr: "reaches_rest client module" by (auto simp: reaches_rest_def)
    from reaches_rest_run [OF rr, of os] a obtain n c2
      where r: "create_preset client module os = create_preset_rest c2 module os n"
        and nc: "filter mutating (issued client c2) = []" "catalog c2 = catalog client"
      by auto
    from r a have "fst (create_preset client module os) =
          Inl (FailJson ''Missing required argument: container'')"
      and "snd (create_preset client module os) = c2"
      by (simp_all add: rest_no_container)
    with nc assms reaches_named [OF rr] show ?thesis by (simp add: fst_main_present snd_main)
  qed
  have 3: "filter is_create (issued client (snd (main client module os))) = []"
    if nc: "truthy_str (container module) = None"
  proof -
    have "filter is_create (issued client (snd (create_preset client module os))) = []"
    proof (cases "truthy_str (name module)")
      case None
      then show ?thesis by (simp add: no_name_present issued_def)
    next
      case (Some n)
      note nm = truthy_name [OF Some]
      obtain x a where f: "first_match (catalog client) n = (x, a)"
        by (cases "first_match (catalog client) n")
      show ?thesis
        using create_preset_run [OF conjunct1 [OF nm] conjunct2 [OF nm] f, of os] nc
        by (auto simp: rest_no_container issued_def delete_preset_by_id_def
              client_delete_preset_def issue_def split: option.splits)
    qed
    with assms show ?thesis by (simp add: snd_main)
  qed
  from 0 1 2 3 show ?thesis by blast
qed

text \<open>
  C6 at work: a task whose name is the empty string, a task without a name, and a task
  for the unlisted name \<open>xx\<close> without a container.
\<close>

theorem required_arguments_witness:
  "state ((task [] Present)) = Present
   \<and> name (task [] Present) = Some []
   \<and> main (service shop) (task [] Present) disk =
       (Inl (FailJson ''Missing required argument: name''), service shop)
   \<and> name ((task ''xx'' Present)\<lparr>name := None\<rparr>) = None
   \<and> main (service shop) ((task ''xx'' Present)\<lparr>name := None\<rparr>) disk =
       (Inl (FailJson ''missing required arguments: name''), service shop)
   \<and> state ((task ''xx'' Present)\<lparr>container := None\<rparr>) = Present
   \<and> truthy_str (name ((task ''xx'' Present)\<lparr>container := None\<rparr>)) \<noteq> None
   \<and> truthy_str (container ((task ''xx'' Present)\<lparr>container := None\<rparr>)) = None
   \<and> existing (service shop) ((task ''xx'' Present)\<lparr>container := None\<rparr>) = None
   \<and> fst (main (service shop) ((task ''xx'' Present)\<lparr>container := None\<rparr>) disk) =
       Inl (FailJson ''Missing required argument: container'')
   \<and> filter mutating
        (issued (service shop)
           (snd (main (service shop) ((task ''xx'' Present)\<lparr>container := None\<rparr>) disk))) = []
   \<and> filter is_create
        (issued (service shop)
           (snd (main (service shop) ((task ''xx'' Present)\<lparr>container := None\<rparr>) disk))) = []"
proof -
  let ?m0 = "task [] Present"
  let ?m1 = "(task ''xx'' Present)\<lparr>name := None\<rparr>"
  let ?m2 = "(task ''xx'' Present)\<lparr>container := None\<rparr>"
  have z1: "state ?m0 = Present" by (simp add: task_def)
  have z2: "name ?m0 = Some []" by (simp add: task_def)
  have a1: "state ?m1 = Present" by (simp add: task_def)
  have a2: "name ?m1 = None" by (simp add: task_def)
  have b1: "state ?m2 = Present" by (simp add: task_def)
  have b2: "truthy_str (name ?m2) \<noteq> None" by (simp add: task_def truthy_str_def)
  have b3: "truthy_str (container ?m2) = None" by (simp add: task_def truthy_str_def)
  have b4: "existing (service shop) ?m2 = None"
    by (simp add: existing_def truthy_str_def get_preset_id_def issue_def
          task_def service_def shop_def)
  note r0 = required_arguments [OF z1, of "service shop" disk]
  note r1 = required_arguments [OF a1, of "service shop" disk]
  note r2 = required_arguments [OF b1, of "service shop" disk]
  from r0 z2 have c0: "main (service shop) ?m0 disk =
       (Inl (FailJson ''Missing required argument: name''), service shop)" by blast
  from r1 a2 have c1: "main (service shop) ?m1 disk =
       (Inl (FailJson ''missing required arguments: name''), service shop)" by blast
  from r2 b2 b3 b4 have c2: "fst (main (service shop) ?m2 disk) =
       Inl (FailJson ''Missing required argument: container'')"
    and c3: "filter mutating (issued (service shop) (snd (main (service shop) ?m2 disk))) = []"
    and c4: "filter is_create (issued (service shop) (snd (main (service shop) ?m2 disk))) = []"
    by blast+
  show ?thesis by (intro conjI z1 z2 c0 a2 c1 b1 b2 b3 b4 c2 c3 c4)
qed

text \<open>
  C6 as stated fails for the container. With the preset \<open>sd\<close> in place and \<open>recreate\<close>
  false, the invocation without a container succeeds. With \<open>recreate\<close> true it does fail
  with the container message, but after the lookup and after the delete of id \<open>2\<close>.
\<close>

theorem required_arguments_counterexample:
  "fst (main (service shop) ((task ''sd'' Present)\<lparr>container := None\<rparr>) disk) =
     Inr \<lparr>res_name = ''sd'', res_id = PStr ''2'', res_arn = PStr ''arn:2'',
           res_msg = ''Preset already exists'', res_changed = Some (PBool False)\<rparr>
   \<and> fst (main (service shop) ((task ''sd'' Present)\<lparr>container := None, recreate := True\<rparr>) disk) =
       Inl (FailJson ''Missing required argument: container'')
   \<and> issued (service shop)
        (snd (main (service shop) ((task ''sd'' Present)\<lparr>container := None, recreate := True\<rparr>) disk)) =
       [ListPresets, ListPresets, DeletePreset ''2'']"
  by (simp add: eval_defs)

text \<open>
  C7, as the code has it. A \<open>present\<close> invocation that gets past the lookup, with a
  container and a document path: when the path is not a file it fails with
  "Wrong path for preset_document: " and the path, and when opening or reading the file
  raises \<open>IOError\<close> it fails with "Can't open video_template file - " and the text of
  the error. In both cases no create call is issued. The calls that did go to the
  service are those of the steps before the document: the listing calls of the lookup
  and nothing else when no preset of that name is in place, and the one delete of
  recreate mode when one is.
\<close>

theorem document_errors:
  assumes "state module = Present" and "reaches_rest client module"
    and "truthy_str (container module) \<noteq> None"
    and "truthy_str (preset_document module) = Some path"
  shows "(os path = NoFile \<longrightarrow>
            fst (main client module os) =
              Inl (FailJson (''Wrong path for preset_document: '' @ path)))
       \<and> (os path = Unreadable e \<longrightarrow>
            fst (main client module os) =
              Inl (FailJson (''Can't open video_template file - '' @ e)))
       \<and> (os path = NoFile \<or> os path = Unreadable e \<longrightarrow>
            filter is_create (issued client (snd (main client module os))) = []
            \<and> (existing client module = None \<longrightarrow>
                 filter mutating (issued client (snd (main client module os))) = []
                 \<and> catalog (snd (main client module os)) = catalog client)
            \<and> (existing client module = Some i \<longrightarrow>
                 filter mutating (issued client (snd (main client module os))) = [DeletePreset i]))"
proof -
  from reaches_rest_run [OF assms(2), of os] obtain n where "\<exists>c2.
      truthy_str (name module) = Some n
      \<and> create_preset client module os = create_preset_rest c2 module os n
      \<and> filter is_create (issued client c2) = []
      \<and> (existing client module = None \<longrightarrow>
           filter mutating (issued client c2) = [] \<and> catalog c2 = catalog client)
      \<and> (\<forall>i. existing client module = Some i \<longrightarrow>
           filter mutating (issued client c2) = [DeletePreset i])" ..
  then obtain c2 where all: "truthy_str (name module) = Some n
      \<and> create_preset client module os = create_preset_rest c2 module os n
      \<and> filter is_create (issued client c2) = []
      \<and> (existing client module = None \<longrightarrow>
           filter mutating (issued client c2) = [] \<and> catalog c2 = catalog client)
      \<and> (\<forall>i. existing client module = Some i \<longrightarrow>
           filter mutating (issued client c2) = [DeletePreset i])" ..
  then have r: "create_preset client module os = create_preset_rest c2 module os n"
      and nc: "filter is_create (issued client c2) = []"
      and nm: "existing client module = None \<longrightarrow>
                 filter mutating (issued client c2) = [] \<and> catalog c2 = catalog client"
      and dl: "\<forall>i. existing client module = Some i \<longrightarrow>
                 filter mutating (issued client c2) = [DeletePreset i]"
    by simp_all
  have fails: "fst (main client module os) = Inl f \<and> snd (main client module os) = c2"
    if "load_template module os = Inl f" for f
  proof -
    from r rest_load_fails [OF assms(3) that, of c2 n]
    have "fst (create_preset client module os) = Inl f"
      and "snd (create_preset client module os) = c2" by simp_all
    with assms(1) reaches_named [OF assms(2)] show ?thesis
      by (simp add: fst_main_present snd_main)
  qed
  have 1: "fst (main client module os) =
              Inl (FailJson (''Wrong path for preset_document: '' @ path))
           \<and> snd (main client module os) = c2"
    if "os path = NoFile"
    using that assms(4) by (intro fails) (simp add: load_template_def)
  have 2: "fst (main client module os) =
              Inl (FailJson (''Can't open video_template file - '' @ e))
           \<and> snd (main client module os) = c2"
    if "os path = Unreadable e"
    using that assms(4) by (intro fails) (simp add: load_template_def)
  from 1 2 nc nm dl show ?thesis by auto
qed

text \<open>
  C7 at work: \<open>nope.json\<close> does not exist and \<open>locked.json\<close> cannot be read; \<open>xx\<close> is
  not listed, and \<open>sd\<close> is in place with id \<open>2\<close>.
\<close>

theorem document_errors_witness:
  "state ((task ''xx'' Present)\<lparr>preset_document := Some ''nope.json''\<rparr>) = Present
   \<and> reaches_rest (service shop) ((task ''xx'' Present)\<lparr>preset_document := Some ''nope.json''\<rparr>)
   \<and> disk ''nope.json'' = NoFile
   \<and> existing (service shop) ((task ''xx'' Present)\<lparr>preset_document := Some ''nope.json''\<rparr>) = None
   \<and> fst (main (service shop) ((task ''xx'' Present)\<lparr>preset_document := Some ''nope.json''\<rparr>) disk) =
       Inl (FailJson (''Wrong path for preset_document: '' @ ''nope.json''))
   \<and> filter mutating
        (issued (service shop)
           (snd (main (service shop)
                  ((task ''xx'' Present)\<lparr>preset_document := Some ''nope.json''\<rparr>) disk))) = []
   \<and> reaches_rest (service shop)
        ((task ''sd'' Present)\<lparr>recreate := True, preset_document := Some ''locked.json''\<rparr>)
   \<and> disk ''locked.json'' = Unreadable ''Permission denied''
   \<and> existing (service shop)
        ((task ''sd'' Present)\<lparr>recreate := True, preset_document := Some ''locked.json''\<rparr>) =
       Some ''2''
   \<and> fst (main (service shop)
            ((task ''sd'' Present)\<lparr>recreate := True, preset_document := Some ''locked.json''\<rparr>) disk) =
       Inl (FailJson (''Can't open video_template file - '' @ ''Permission denied''))
   \<and> filter is_create
        (issued (service shop)
           (snd (main (service shop)
                  ((task ''sd'' Present)\<lparr>recreate := True, preset_document := Some ''locked.json''\<rparr>)
                  disk))) = []
   \<and> filter mutating
        (issued (service shop)
           (snd (main (service shop)
                  ((task ''sd'' Present)\<lparr>recreate := True, preset_document := Some ''locked.json''\<rparr>)
                  disk))) = [DeletePreset ''2'']"
proof -
  let ?m1 = "(task ''xx'' Present)\<lparr>preset_document := Some ''nope.json''\<rparr>"
  let ?m2 = "(task ''sd'' Present)\<lparr>recreate := True, preset_document := Some ''locked.json''\<rparr>"
  have a1: "state ?m1 = Present" by (simp add: task_def)
  have a2: "reaches_rest (service shop) ?m1"
    by (simp add: reaches_rest_def existing_def truthy_str_def get_preset_id_def issue_def
          task_def service_def shop_def)
  have a3: "truthy_str (container ?m1) \<noteq> None" by (simp add: task_def truthy_str_def)
  have a4: "truthy_str (preset_document ?m1) = Some ''nope.json''"
    by (simp add: task_def truthy_str_def)
  have a5: "disk ''nope.json'' = NoFile" by (simp add: disk_def)
  have a6: "existing (service shop) ?m1 = None"
    by (simp add: existing_def truthy_str_def get_preset_id_def issue_def
          task_def service_def shop_def)
  have b1: "state ?m2 = Present" by (simp add: task_def)
  have b2: "reaches_rest (service shop) ?m2"
    by (simp add: reaches_rest_def existing_def truthy_str_def get_preset_id_def issue_def
          task_def service_def shop_def)
  have b3: "truthy_str (container ?m2) \<noteq> None" by (simp add: task_def truthy_str_def)
  have b4: "truthy_str (preset_document ?m2) = Some ''locked.json''"
    by (simp add: task_def truthy_str_def)
  have b5: "disk ''locked.json'' = Unreadable ''Permission denied''" by (simp add: disk_def)
  have b6: "existing (service shop) ?m2 = Some ''2''"
    by (simp add: existing_def truthy_str_def get_preset_id_def issue_def
          task_def service_def shop_def)
  note r1 = document_errors [OF a1 a2 a3 a4, of disk "''Permission denied''" "''2''"]
  note r2 = document_errors [OF b1 b2 b3 b4, of disk "''Permission denied''" "''2''"]
  from r1 a5 have c1: "fst (main (service shop) ?m1 disk) =
       Inl (FailJson (''Wrong path for preset_document: '' @ ''nope.json''))" by blast
  from r1 a5 a6
  have c2: "filter mutating (issued (service shop) (snd (main (service shop) ?m1 disk))) = []"
    by blast
  from r2 b5 have c3: "fst (main (service shop) ?m2 disk) =
       Inl (FailJson (''Can't open video_template file - '' @ ''Permission denied''))"
    and c4: "filter is_create (issued (service shop) (snd (main (service shop) ?m2 disk))) = []"
    by blast+
  from r2 b5 b6
  have c5: "filter mutating (issued (service shop) (snd (main (service shop) ?m2 disk))) =
       [DeletePreset ''2'']"
    by blast
  show ?thesis by (intro conjI a1 a2 a5 a6 c1 c2 b2 b5 b6 c3 c4 c5)
qed

text \<open>
  C7 as stated fails four ways. With the preset in place and \<open>recreate\<close> false the
  invocation succeeds and never looks at the missing file. With no preset in place the
  missing file is reported, but after the listing calls have gone to the service. With
  the preset in place and \<open>recreate\<close> true it is reported after the delete of id \<open>2\<close> as
  well. And a file that is not JSON makes \<open>json.load\<close> raise \<open>ValueError\<close>, which the
  handler for \<open>IOError\<close> does not catch: no message of the module is reported.
\<close>

theorem document_errors_counterexample:
  "fst (main (service shop) ((task ''sd'' Present)\<lparr>preset_document := Some ''nope.json''\<rparr>) disk) =
     Inr \<lparr>res_name = ''sd'', res_id = PStr ''2'', res_arn = PStr ''arn:2'',
           res_msg = ''Preset already exists'', res_changed = Some (PBool False)\<rparr>
   \<and> issued (service shop)
        (snd (main (service shop) ((task ''xx'' Present)\<lparr>preset_document := Some ''nope.json''\<rparr>) disk)) =
       [ListPresets, ListPresets]
   \<and> fst (main (service shop)
            ((task ''sd'' Present)\<lparr>recreate := True, preset_document := Some ''nope.json''\<rparr>) disk) =
       Inl (FailJson ''Wrong path for preset_document: nope.json'')
   \<and> issued (service shop)
        (snd (main (service shop)
               ((task ''sd'' Present)\<lparr>recreate := True, preset_document := Some ''nope.json''\<rparr>) disk)) =
       [ListPresets, ListPresets, DeletePreset ''2'']
   \<and> fst (main (service shop) ((task ''xx'' Present)\<lparr>preset_document := Some ''bad.json''\<rparr>) disk) =
       Inl (Uncaught (ValueError ''No JSON object could be decoded''))"
  by (simp add: eval_defs)

text \<open>
  C8, as the code has it. An \<open>absent\<close> invocation in check mode issues no delete and
  leaves the catalog alone, and it always reports "Preset deleted successfully" with
  \<open>changed\<close> set to the string \<open>true\<close>: with the id and arn of the preset in place
  when there is one, with empty id and arn when there is none.
\<close>

theorem absent_check_mode:
  assumes st: "state module = Absent" and ck: "check_mode module"
    and nm: "name module = Some n" "n \<noteq> []"
  shows "filter mutating (issued client (snd (main client module os))) = []
       \<and> catalog (snd (main client module os)) = catalog client
       \<and> fst (main client module os) =
           Inr \<lparr>res_name = n,
                 res_id = (case existing client module of None \<Rightarrow> PStr [] | Some i \<Rightarrow> PStr i),
                 res_arn = (case existing client module of None \<Rightarrow> PStr []
                            | Some i \<Rightarrow> of_opt (snd (fst (get_preset_id client n)))),
                 res_msg = ''Preset deleted successfully'',
                 res_changed = Some (PStr ''true'')\<rparr>"
proof -
  obtain x a where f: "first_match (catalog client) n = (x, a)"
    by (cases "first_match (catalog client) n")
  note run = delete_preset_run [OF nm f]
  note ex = existing_run [OF nm f]
  show ?thesis
  proof (cases "truthy_str x")
    case None
    with run ex ck st f nm show ?thesis
      by (simp add: main_absent exit_json_def issued_def)
  next
    case (Some i)
    then have "x = Some i" by (auto simp: truthy_str_def split: option.splits if_splits)
    with Some run ex ck st f nm show ?thesis
      by (simp add: main_absent exit_json_def issued_def of_opt_def get_preset_id_eq)
  qed
qed

text \<open>
  C8 at work: \<open>sd\<close> is in place with id \<open>2\<close>.
\<close>

theorem absent_check_mode_witness:
  "state ((task ''sd'' Absent)\<lparr>check_mode := True\<rparr>) = Absent
   \<and> check_mode ((task ''sd'' Absent)\<lparr>check_mode := True\<rparr>)
   \<and> name ((task ''sd'' Absent)\<lparr>check_mode := True\<rparr>) = Some ''sd''
   \<and> existing (service shop) ((task ''sd'' Absent)\<lparr>check_mode := True\<rparr>) = Some ''2''
   \<and> filter mutating
        (issued (service shop)
           (snd (main (service shop) ((task ''sd'' Absent)\<lparr>check_mode := True\<rparr>) disk))) = []
   \<and> catalog (snd (main (service shop) ((task ''sd'' Absent)\<lparr>check_mode := True\<rparr>) disk)) =
       catalog (service shop)
   \<and> fst (main (service shop) ((task ''sd'' Absent)\<lparr>check_mode := True\<rparr>) disk) =
       Inr \<lparr>res_name = ''sd'', res_id = PStr ''2'', res_arn = PStr ''arn:2'',
             res_msg = ''Preset deleted successfully'', res_changed = Some (PStr ''true'')\<rparr>"
proof -
  let ?m = "(task ''sd'' Absent)\<lparr>check_mode := True\<rparr>"
  have h1: "state ?m = Absent" by (simp add: task_def)
  have h2: "check_mode ?m" by (simp add: task_def)
  have h3: "name ?m = Some ''sd''" by (simp add: task_def)
  have h4: "''sd'' \<noteq> []" by simp
  have e: "existing (service shop) ?m = Some ''2''"
    by (simp add: existing_def truthy_str_def get_preset_id_def issue_def
          task_def service_def shop_def)
  have g: "snd (fst (get_preset_id (service shop) ''sd'')) = Some ''arn:2''"
    by (simp add: get_preset_id_def issue_def service_def shop_def)
  note r = absent_check_mode [OF h1 h2 h3 h4, of "service shop" disk]
  from r have c1: "filter mutating (issued (service shop) (snd (main (service shop) ?m disk))) = []"
    and c2: "catalog (snd (main (service shop) ?m disk)) = catalog (service shop)"
    by blast+
  from r have "fst (main (service shop) ?m disk) =
       Inr \<lparr>res_name = ''sd'',
             res_id = (case existing (service shop) ?m of None \<Rightarrow> PStr [] | Some i \<Rightarrow> PStr i),
             res_arn = (case existing (service shop) ?m of None \<Rightarrow> PStr []
                        | Some i \<Rightarrow> of_opt (snd (fst (get_preset_id (service shop) ''sd'')))),
             res_msg = ''Preset deleted successfully'', res_changed = Some (PStr ''true'')\<rparr>"
    by blast
  then have c3: "fst (main (service shop) ?m disk) =
       Inr \<lparr>res_name = ''sd'', res_id = PStr ''2'', res_arn = PStr ''arn:2'',
             res_msg = ''Preset deleted successfully'', res_changed = Some (PStr ''true'')\<rparr>"
    by (simp add: e g of_opt_def)
  show ?thesis by (intro conjI h1 h2 h3 e c1 c2 c3)
qed

text \<open>
  C8 as stated has check mode report what the real run would report. For the unlisted
  name \<open>zz\<close> the real run reports "Preset not found" and \<open>false\<close>; check mode reports
  a deletion and \<open>true\<close>, since the replacement of message and flag is itself guarded
  by \<open>if not module.check_mode\<close>.
\<close>

theorem absent_check_mode_counterexample:
  "fst (main (service shop) ((task ''zz'' Absent)\<lparr>check_mode := True\<rparr>) disk) =
     Inr \<lparr>res_name = ''zz'', res_id = PStr [], res_arn = PStr [],
           res_msg = ''Preset deleted successfully'', res_changed = Some (PStr ''true'')\<rparr>
   \<and> fst (main (service shop) (task ''zz'' Absent) disk) =
     Inr \<lparr>res_name = ''zz'', res_id = PStr [], res_arn = PStr [],
           res_msg = ''Preset not found'', res_changed = Some (PStr ''false'')\<rparr>"
  by (simp add: eval_defs)

text \<open>
  C9, as the code has it. Every invocation issues at most one delete and at most one
  create, and a delete comes before a create. Both are issued only by a \<open>present\<close>
  invocation with \<open>recreate\<close> and a preset in place, and then only when the service
  accepted the delete. Outside check mode such an invocation issues exactly one delete,
  of the id in place, and, when it ends in success, exactly one create after it. A
  create is issued only outside check mode and only as the last step: the invocation
  then ends in success or with the service's refusal, "Invalid preset settings: " and
  its text; so when an earlier check (container, document, empty blocks) fails, no
  create follows.
\<close>

theorem invocation_mutations:
  "length (filter is_delete (issued client (snd (main client module os)))) \<le> 1
   \<and> length (filter is_create (issued client (snd (main client module os)))) \<le> 1
   \<and> filter mutating (issued client (snd (main client module os))) =
       filter is_delete (issued client (snd (main client module os))) @
       filter is_create (issued client (snd (main client module os)))
   \<and> (filter is_delete (issued client (snd (main client module os))) \<noteq> []
        \<and> filter is_create (issued client (snd (main client module os))) \<noteq> [] \<longrightarrow>
        state module = Present \<and> recreate module
        \<and> (\<exists>i. existing client module = Some i \<and> delete_error client i = None))
   \<and> (state module = Present \<and> recreate module \<and> \<not> check_mode module
        \<and> existing client module = Some i \<longrightarrow>
        filter is_delete (issued client (snd (main client module os))) = [DeletePreset i])
   \<and> (state module = Present \<and> recreate module \<and> \<not> check_mode module
        \<and> existing client module = Some i \<and> \<not> isl (fst (main client module os)) \<longrightarrow>
        length (filter is_create (issued client (snd (main client module os)))) = 1)
   \<and> (filter is_create (issued client (snd (main client module os))) \<noteq> [] \<longrightarrow>
        \<not> check_mode module
        \<and> (\<not> isl (fst (main client module os))
             \<or> (\<exists>e. fst (main client module os) =
                       Inl (FailJson (''Invalid preset settings: '' @ e)))))"
proof (cases "state module")
  case Present
  obtain k D M where s: "issued client (snd (create_preset client module os)) = replicate k ListPresets @ D @ M"
    and D: "D = [] \<or> (\<exists>i. existing client module = Some i \<and> D = [DeletePreset i] \<and> recreate module
                      \<and> (M \<noteq> [] \<longrightarrow> delete_error client i = None))"
    and M: "M = [] \<or> (\<exists>ps. M = [CreatePreset ps])"
    and E: "\<forall>i. existing client module = Some i \<and> recreate module \<longrightarrow> D = [DeletePreset i]"
    and S: "\<not> isl (fst (create_preset client module os)) \<and> \<not> check_mode module
          \<and> (existing client module = None \<or> recreate module) \<longrightarrow> M \<noteq> []"
    and W: "M \<noteq> [] \<longrightarrow> \<not> check_mode module
          \<and> (\<not> isl (fst (create_preset client module os))
               \<or> (\<exists>e. fst (create_preset client module os) =
                         Inl (FailJson (''Invalid preset settings: '' @ e))))"
    using create_preset_calls [of client module os] by blast
  from D have D': "D = [] \<or> (\<exists>i. D = [DeletePreset i])" by blast
  note fl = shape_filters [OF D' M, of k]
  have sm: "snd (main client module os) = snd (create_preset client module os)"
    using Present by (simp add: snd_main)
  have il: "isl (fst (main client module os)) = isl (fst (create_preset client module os))"
    using Present by (simp add: fst_main_isl)
  have W': "M \<noteq> [] \<longrightarrow> \<not> check_mode module
          \<and> (\<not> isl (fst (create_preset client module os))
               \<or> (\<exists>e. fst (main client module os) =
                         Inl (FailJson (''Invalid preset settings: '' @ e))))"
  proof (cases "name module")
    case None
    then have "issued client (snd (create_preset client module os)) = []"
      by (simp add: no_name_present truthy_str_def issued_def)
    with s have "M = []" by simp
    then show ?thesis by simp
  next
    case (Some n)
    then have "fst (main client module os) = Inl f"
      if "fst (create_preset client module os) = Inl f" for f
      using that Present by (simp add: fst_main_present)
    with W show ?thesis by blast
  qed
  show ?thesis
    unfolding sm il s fl
    using Present D M E S W' by auto
next
  case Absent
  obtain k D where s: "issued client (snd (delete_preset client module)) = replicate k ListPresets @ D @ []"
    and D: "D = [] \<or> (\<exists>i. existing client module = Some i \<and> D = [DeletePreset i] \<and> \<not> check_mode module)"
    using delete_preset_calls [of client module] by auto
  from D have D': "D = [] \<or> (\<exists>i. D = [DeletePreset i])" by blast
  have M: "[] = [] \<or> (\<exists>ps. [] = [CreatePreset ps])" by simp
  note fl = shape_filters [OF D' M, of k]
  have sm: "snd (main client module os) = snd (delete_preset client module)"
    using Absent by (simp add: snd_main)
  show ?thesis
    unfolding sm s fl
    using Absent D by auto
qed

text \<open>
  C9 at work: \<open>sd\<close> is in place with id \<open>2\<close>. With the Video block of \<open>v.json\<close> the
  delete is followed by one create; with the empty blocks of \<open>e.json\<close> the invocation
  fails at the test for empty blocks and no create is issued.
\<close>

theorem invocation_mutations_witness:
  "state ((task ''sd'' Present)\<lparr>recreate := True, preset_document := Some ''v.json''\<rparr>) = Present
   \<and> recreate ((task ''sd'' Present)\<lparr>recreate := True, preset_document := Some ''v.json''\<rparr>)
   \<and> \<not> check_mode ((task ''sd'' Present)\<lparr>recreate := True, preset_document := Some ''v.json''\<rparr>)
   \<and> existing (service shop)
        ((task ''sd'' Present)\<lparr>recreate := True, preset_document := Some ''v.json''\<rparr>) = Some ''2''
   \<and> \<not> isl (fst (main (service shop)
        ((task ''sd'' Present)\<lparr>recreate := True, preset_document := Some ''v.json''\<rparr>) disk))
   \<and> filter is_delete
        (issued (service shop)
           (snd (main (service shop)
                  ((task ''sd'' Present)\<lparr>recreate := True, preset_document := Some ''v.json''\<rparr>) disk))) =
       [DeletePreset ''2'']
   \<and> length (filter is_create
        (issued (service shop)
           (snd (main (service shop)
                  ((task ''sd'' Present)\<lparr>recreate := True, preset_document := Some ''v.json''\<rparr>) disk)))) = 1
   \<and> filter mutating
        (issued (service shop)
           (snd (main (service shop)
                  ((task ''sd'' Present)\<lparr>recreate := True, preset_document := Some ''v.json''\<rparr>) disk))) =
       filter is_delete
        (issued (service shop)
           (snd (main (service shop)
                  ((task ''sd'' Present)\<lparr>recreate := True, preset_document := Some ''v.json''\<rparr>) disk))) @
       filter is_create
        (issued (service shop)
           (snd (main (service shop)
                  ((task ''sd'' Present)\<lparr>recreate := True, preset_document := Some ''v.json''\<rparr>) disk)))
   \<and> fst (main (service shop)
            ((task ''sd'' Present)\<lparr>recreate := True, preset_document := Some ''e.json''\<rparr>) disk) =
       Inl (FailJson ''No specs provided for Video, Audio, or Thumbnails. '')
   \<and> filter is_create
        (issued (service shop)
           (snd (main (service shop)
                  ((task ''sd'' Present)\<lparr>recreate := True, preset_document := Some ''e.json''\<rparr>) disk))) = []"
proof -
  let ?m = "(task ''sd'' Present)\<lparr>recreate := True, preset_document := Some ''v.json''\<rparr>"
  let ?e = "(task ''sd'' Present)\<lparr>recreate := True, preset_document := Some ''e.json''\<rparr>"
  have h1: "state ?m = Present" by (simp add: task_def)
  have h2: "recreate ?m" by (simp add: task_def)
  have h3: "\<not> check_mode ?m" by (simp add: task_def)
  have h4: "existing (service shop) ?m = Some ''2''"
    by (simp add: existing_def truthy_str_def get_preset_id_def issue_def
          task_def service_def shop_def)
  have h5: "\<not> isl (fst (main (service shop) ?m disk))"
    by (simp add: eval_defs)
  have h6: "fst (main (service shop) ?e disk) =
       Inl (FailJson ''No specs provided for Video, Audio, or Thumbnails. '')"
    by (simp add: eval_defs)
  note r = invocation_mutations [of "service shop" ?m disk "''2''"]
  note q = invocation_mutations [of "service shop" ?e disk "''2''"]
  from r h1 h2 h3 h4 have c1: "filter is_delete (issued (service shop) (snd (main (service shop) ?m disk))) =
       [DeletePreset ''2'']" by blast
  from r h1 h2 h3 h4 h5
  have c2: "length (filter is_create (issued (service shop) (snd (main (service shop) ?m disk)))) = 1"
    by blast
  from r have c3: "filter mutating (issued (service shop) (snd (main (service shop) ?m disk))) =
       filter is_delete (issued (service shop) (snd (main (service shop) ?m disk))) @
       filter is_create (issued (service shop) (snd (main (service shop) ?m disk)))"
    by blast
  from q have "filter is_create (issued (service shop) (snd (main (service shop) ?e disk))) \<noteq> [] \<longrightarrow>
       \<not> isl (fst (main (service shop) ?e disk))
       \<or> (\<exists>x. fst (main (service shop) ?e disk) =
                 Inl (FailJson (''Invalid preset settings: '' @ x)))"
    by blast
  then have c4: "filter is_create (issued (service shop) (snd (main (service shop) ?e disk))) = []"
    unfolding h6 by auto
  show ?thesis by (intro conjI h1 h2 h3 h4 h5 c1 c2 c3 h6 c4)
qed

text \<open>
  C9 as stated has every \<open>recreate\<close> against a preset in place issue one delete and then
  one create. The delete comes before the document is read and tested: with the empty
  blocks of \<open>e.json\<close> the preset with id \<open>2\<close> is deleted, the test for empty blocks
  fails, and no create follows.
\<close>

theorem recreate_counterexample:
  "fst (main (service shop)
          ((task ''sd'' Present)\<lparr>recreate := True, preset_document := Some ''e.json''\<rparr>) disk) =
     Inl (FailJson ''No specs provided for Video, Audio, or Thumbnails. '')
   \<and> filter mutating
        (issued (service shop)
           (snd (main (service shop)
                  ((task ''sd'' Present)\<lparr>recreate := True, preset_document := Some ''e.json''\<rparr>) disk))) =
       [DeletePreset ''2'']"
  by (simp add: eval_defs)

text \<open>
  C10. A \<open>present\<close> invocation with \<open>recreate\<close> true, when no listed preset carries the
  given name, issues no delete call and goes from the lookup straight to the create
  path: \<open>create_preset\<close> is the rest of the function run on the client as the lookup left
  it, \<open>main\<close> reports what that returns, and outside check mode a success has issued
  exactly one create call. The outcome and the client are the same as those of the
  invocation with \<open>recreate\<close> false.
\<close>

theorem recreate_without_existing:
  assumes "state module = Present" and "recreate module"
    and "name module = Some n" and "n \<noteq> []"
    and "n \<notin> preset_Name ` set (catalog_entries (catalog client))"
  shows "main client module os = main client (module\<lparr>recreate := False\<rparr>) os
         \<and> filter is_delete (issued client (snd (main client module os))) = []
         \<and> create_preset client module os =
             create_preset_rest (snd (get_preset_id client n)) module os n
         \<and> fst (main client module os) =
             map_sum id exit_json
               (fst (create_preset_rest (snd (get_preset_id client n)) module os n))
         \<and> snd (main client module os) =
             snd (create_preset_rest (snd (get_preset_id client n)) module os n)
         \<and> filter mutating (issued client (snd (get_preset_id client n))) = []
         \<and> (\<not> check_mode module \<and> \<not> isl (fst (main client module os)) \<longrightarrow>
              length (filter is_create (issued client (snd (main client module os)))) = 1)"
proof -
  have cp: "create_preset client module os =
      create_preset_rest (snd (get_preset_id client n)) module os n"
    using assms
    by (simp add: create_preset_def truthy_str_def get_preset_id_eq first_match_absent)
  have "create_preset client module os = create_preset client (module\<lparr>recreate := False\<rparr>) os"
    using assms
    by (simp add: create_preset_def truthy_str_def get_preset_id_eq first_match_absent)
  then have eq: "main client module os = main client (module\<lparr>recreate := False\<rparr>) os"
    using assms by (simp add: main_def)
  have "filter is_delete (issued client (snd (create_preset client module os))) = []"
    using assms
    by (simp add: create_preset_def truthy_str_def get_preset_id_eq first_match_absent
          rest_no_delete)
  then have nd: "filter is_delete (issued client (snd (main client module os))) = []"
    using assms by (simp add: snd_main)
  have f: "fst (main client module os) =
      map_sum id exit_json (fst (create_preset_rest (snd (get_preset_id client n)) module os n))"
    using assms cp by (simp add: fst_main_ok)
  have sn: "snd (main client module os) =
      snd (create_preset_rest (snd (get_preset_id client n)) module os n)"
    using assms cp by (simp add: snd_main)
  have lk: "filter mutating (issued client (snd (get_preset_id client n))) = []"
    by (simp add: get_preset_id_eq)
  have one: "length (filter is_create (issued client (snd (main client module os)))) = 1"
    if "\<not> check_mode module \<and> \<not> isl (fst (main client module os))"
  proof -
    obtain k D M
      where s: "issued client (snd (create_preset client module os)) = replicate k ListPresets @ D @ M"
        and D: "D = [] \<or> (\<exists>i. existing client module = Some i \<and> D = [DeletePreset i] \<and> recreate module
                      \<and> (M \<noteq> [] \<longrightarrow> delete_error client i = None))"
        and M: "M = [] \<or> (\<exists>ps. M = [CreatePreset ps])"
        and S: "\<not> isl (fst (create_preset client module os)) \<and> \<not> check_mode module
              \<and> (existing client module = None \<or> recreate module) \<longrightarrow> M \<noteq> []"
      using create_preset_calls [of client module os] by blast
    from D have D': "D = [] \<or> (\<exists>i. D = [DeletePreset i])" by blast
    have "\<not> isl (fst (create_preset client module os))"
      using that assms(1) by (simp add: fst_main_isl)
    with that S assms(2) have "M \<noteq> []" by blast
    with M shape_filters(2) [OF D' M, of k] s assms(1) show ?thesis
      by (auto simp: snd_main)
  qed
  from eq nd cp f sn lk one show ?thesis by blast
qed

text \<open>
  C10 at work: \<open>xx\<close> is not listed; the document \<open>v.json\<close> has a Video block, and the one
  mutating call of the invocation is the create.
\<close>

theorem recreate_without_existing_witness:
  "state ((task ''xx'' Present)\<lparr>recreate := True, preset_document := Some ''v.json''\<rparr>) = Present
   \<and> recreate ((task ''xx'' Present)\<lparr>recreate := True, preset_document := Some ''v.json''\<rparr>)
   \<and> name ((task ''xx'' Present)\<lparr>recreate := True, preset_document := Some ''v.json''\<rparr>) = Some ''xx''
   \<and> ''xx'' \<noteq> []
   \<and> ''xx'' \<notin> preset_Name ` set (catalog_entries (catalog (service shop)))
   \<and> \<not> check_mode ((task ''xx'' Present)\<lparr>recreate := True, preset_document := Some ''v.json''\<rparr>)
   \<and> \<not> isl (fst (main (service shop)
        ((task ''xx'' Present)\<lparr>recreate := True, preset_document := Some ''v.json''\<rparr>) disk))
   \<and> main (service shop) ((task ''xx'' Present)\<lparr>recreate := True, preset_document := Some ''v.json''\<rparr>) disk =
       main (service shop)
         ((task ''xx'' Present)\<lparr>recreate := True, preset_document := Some ''v.json''\<rparr>\<lparr>recreate := False\<rparr>) disk
   \<and> filter is_delete
        (issued (service shop)
           (snd (main (service shop)
                  ((task ''xx'' Present)\<lparr>recreate := True, preset_document := Some ''v.json''\<rparr>) disk))) = []
   \<and> length (filter is_create
        (issued (service shop)
           (snd (main (service shop)
                  ((task ''xx'' Present)\<lparr>recreate := True, preset_document := Some ''v.json''\<rparr>) disk)))) = 1
   \<and> filter mutating
        (issued (service shop)
           (snd (main (service shop)
                  ((task ''xx'' Present)\<lparr>recreate := True, preset_document := Some ''v.json''\<rparr>) disk))) =
       [CreatePreset \<lparr>Name = ''xx'', Description = None, Container = ''mp4'',
                      Video = Some (JObj [(''Codec'', JStr ''H.264'')]), Audio = None,
                      Thumbnails = None\<rparr>]"
proof -
  let ?m = "(task ''xx'' Present)\<lparr>recreate := True, preset_document := Some ''v.json''\<rparr>"
  have h1: "state ?m = Present" by (simp add: task_def)
  have h2: "recreate ?m" by (simp add: task_def)
  have h3: "name ?m = Some ''xx''" by (simp add: task_def)
  have h4: "''xx'' \<noteq> []" by simp
  have h5: "''xx'' \<notin> preset_Name ` set (catalog_entries (catalog (service shop)))"
    by (simp add: catalog_entries_def page_entries_def service_def shop_def)
  have h6: "\<not> check_mode ?m" by (simp add: task_def)
  have h7: "\<not> isl (fst (main (service shop) ?m disk))" by (simp add: eval_defs)
  have h8: "filter mutating (issued (service shop) (snd (main (service shop) ?m disk))) =
       [CreatePreset \<lparr>Name = ''xx'', Description = None, Container = ''mp4'',
                      Video = Some (JObj [(''Codec'', JStr ''H.264'')]), Audio = None,
                      Thumbnails = None\<rparr>]"
    by (simp add: eval_defs)
  note r = recreate_without_existing [OF h1 h2 h3 h4 h5, of disk]
  from r have c1: "main (service shop) ?m disk = main (service shop) (?m\<lparr>recreate := False\<rparr>) disk"
    and c2: "filter is_delete (issued (service shop) (snd (main (service shop) ?m disk))) = []"
    by blast+
  from r h6 h7
  have c3: "length (filter is_create (issued (service shop) (snd (main (service shop) ?m disk)))) = 1"
    by blast
  show ?thesis by (intro conjI h1 h2 h3 h4 h5 h6 h7 c1 c2 c3 h8)
qed

end
